theory Spec2Isabelle
  imports Complex_Main "HOL-Library.Log_Nat"
begin

section \<open>Money\<close>

text \<open>
  Amounts are Python \<open>Decimal\<close>s, modelled by their values as rationals. Division goes
  through the decimal context, which rounds the exact quotient to 28 significant digits,
  half to even; the exponent limits of the context are not modelled. Sums and differences
  are taken exact, which is what the context gives while a result has no more than 28
  significant digits. Every \<open>Money\<close> and \<open>TaxedMoney\<close> of one order or checkout is built
  with that order's or checkout's currency, so a \<open>TaxedMoney\<close> is the pair of its net and
  gross amounts.
\<close>

type_synonym decimal = rat

record taxed_money =
  net :: decimal
  gross :: decimal

datatype error = TaxError | DivisionByZero | InvalidOperation | KeyError | OtherError

definition zero_taxed_money :: "string \<Rightarrow> taxed_money" where
  "zero_taxed_money cur = \<lparr>net = 0, gross = 0\<rparr>"

text \<open>\<open>TaxedMoney.__add__\<close> with a \<open>TaxedMoney\<close>: componentwise.\<close>

definition taxed_money_add :: "taxed_money \<Rightarrow> taxed_money \<Rightarrow> taxed_money" where
  "taxed_money_add a b = \<lparr>net = net a + net b, gross = gross a + gross b\<rparr>"

text \<open>\<open>TaxedMoney.__sub__\<close> with a \<open>Money\<close>: the amount leaves both components.\<close>

definition taxed_money_sub_money :: "taxed_money \<Rightarrow> decimal \<Rightarrow> taxed_money" where
  "taxed_money_sub_money a m = \<lparr>net = net a - m, gross = gross a - m\<rparr>"

text \<open>Rounding to the nearest integer, a tie going to the even one.\<close>

definition round_half_even :: "rat \<Rightarrow> int" where
  "round_half_even y =
     (let f = \<lfloor>y\<rfloor>; d = y - of_int f
      in if d < 1 / 2 then f
         else if 1 / 2 < d then f + 1
         else if even f then f else f + 1)"

text \<open>
  The adjusted exponent of a non-zero amount: the \<open>e\<close> with \<open>10 ^ e \<le> |x| < 10 ^ (e + 1)\<close>,
  found from the digit counts of numerator and denominator.
\<close>

definition adjusted :: "rat \<Rightarrow> int" where
  "adjusted x =
     (case quotient_of \<bar>x\<bar> of
        (a, b) \<Rightarrow>
          (let k = int (floorlog 10 (nat a)) - int (floorlog 10 (nat b))
           in if 10 powi k \<le> \<bar>x\<bar> then k else k - 1))"

text \<open>The decimal context: precision 28, \<open>ROUND_HALF_EVEN\<close>.\<close>

definition decimal_round :: "rat \<Rightarrow> rat" where
  "decimal_round x =
     (if x = 0 then 0
      else let s = 27 - adjusted x
           in of_int (round_half_even (x * 10 powi s)) * 10 powi (- s))"

text \<open>
  \<open>TaxedMoney.__truediv__\<close> by an integer divides the net amount first, then the gross
  amount, each a \<open>Decimal\<close> division rounded by the context. Division by zero raises:
  \<open>InvalidOperation\<close> for \<open>0 / 0\<close>, \<open>DivisionByZero\<close> otherwise.
\<close>

definition taxed_money_truediv :: "taxed_money \<Rightarrow> int \<Rightarrow> error + taxed_money" where
  "taxed_money_truediv a q =
     (if q = 0 then Inl (if net a = 0 then InvalidOperation else DivisionByZero)
      else Inr \<lparr>net = decimal_round (net a / of_int q),
               gross = decimal_round (gross a / of_int q)\<rparr>)"

text \<open>
  \<open>TaxedMoney.__lt__\<close> compares the gross amounts. Python's \<open>max(a, b)\<close> returns \<open>b\<close>
  when \<open>b > a\<close>, which for two \<open>TaxedMoney\<close> is the reflected \<open>a < b\<close>, and \<open>a\<close> otherwise.
\<close>

definition taxed_money_lt :: "taxed_money \<Rightarrow> taxed_money \<Rightarrow> bool" where
  "taxed_money_lt a b = (gross a < gross b)"

definition taxed_money_max :: "taxed_money \<Rightarrow> taxed_money \<Rightarrow> taxed_money" where
  "taxed_money_max a b = (if taxed_money_lt a b then b else a)"

section \<open>Orders, lines, discounts, vouchers\<close>

datatype order_status =
  DRAFT | UNCONFIRMED | UNFULFILLED | PARTIALLY_FULFILLED | PARTIALLY_RETURNED
  | RETURNED | FULFILLED | CANCELED | EXPIRED

definition ORDER_EDITABLE_STATUS :: "order_status list" where
  "ORDER_EDITABLE_STATUS = [DRAFT, UNCONFIRMED]"

datatype discount_value_type = FIXED | PERCENTAGE

datatype discount_type = SALE | VOUCHER | MANUAL | PROMOTION

datatype tax_calculation_strategy = FLAT_RATES | TAX_APP

record voucher_channel_listing =
  listing_channel :: nat
  listing_discount_value :: decimal

record voucher =
  voucher_pk :: nat
  voucher_name :: "string option"
  discount_value_type :: discount_value_type
  channel_listings :: "voucher_channel_listing list"

text \<open>An \<open>OrderDiscount\<close> row, with the fields \<open>order.discounts.create\<close> sets.\<close>

record order_discount =
  value_type :: discount_value_type
  discount_value :: decimal
  reason :: string
  discount_voucher :: "nat option"
  discount_type :: discount_type
  discount_voucher_code :: "string option"

record tax_configuration =
  prices_entered_with_tax :: bool

record channel =
  channel_pk :: nat
  tax_configuration :: tax_configuration

record variant =
  variant_pk :: nat
  product :: nat

record order_line =
  line_pk :: nat
  variant :: "variant option"
  quantity :: int
  unit_price_net_amount :: decimal
  unit_price_gross_amount :: decimal
  undiscounted_unit_price_net_amount :: decimal
  undiscounted_unit_price_gross_amount :: decimal
  total_price_net_amount :: decimal
  total_price_gross_amount :: decimal
  undiscounted_total_price_net_amount :: decimal
  undiscounted_total_price_gross_amount :: decimal
  tax_rate :: "decimal option"
  unit_discount_amount :: decimal

text \<open>
  The in-memory \<open>Order\<close>. \<open>prefetched_discounts\<close> is the entry \<open>"discounts"\<close> of
  \<open>_prefetched_objects_cache\<close> (\<open>None\<close> when absent); \<open>voucher_id\<close> is the key of
  \<open>voucher\<close>.
\<close>

record order =
  order_pk :: nat
  status :: order_status
  should_refresh_prices :: bool
  voucher :: "voucher option"
  voucher_code :: "string option"
  channel :: channel
  currency :: string
  tax_exemption :: bool
  base_shipping_price_amount :: decimal
  total_net_amount :: decimal
  total_gross_amount :: decimal
  undiscounted_total_net_amount :: decimal
  undiscounted_total_gross_amount :: decimal
  shipping_price_net_amount :: decimal
  shipping_price_gross_amount :: decimal
  shipping_tax_rate :: "decimal option"
  prefetched_discounts :: "order_discount list option"

text \<open>The \<open>TaxedMoney\<close> properties of the models read and write the two amount fields.\<close>

definition total :: "order \<Rightarrow> taxed_money" where
  "total o1 = \<lparr>net = total_net_amount o1, gross = total_gross_amount o1\<rparr>"

definition set_total :: "taxed_money \<Rightarrow> order \<Rightarrow> order" where
  "set_total t o1 = o1\<lparr>total_net_amount := net t, total_gross_amount := gross t\<rparr>"

definition undiscounted_total :: "order \<Rightarrow> taxed_money" where
  "undiscounted_total o1 =
     \<lparr>net = undiscounted_total_net_amount o1, gross = undiscounted_total_gross_amount o1\<rparr>"

definition set_undiscounted_total :: "taxed_money \<Rightarrow> order \<Rightarrow> order" where
  "set_undiscounted_total t o1 =
     o1\<lparr>undiscounted_total_net_amount := net t, undiscounted_total_gross_amount := gross t\<rparr>"

definition shipping_price :: "order \<Rightarrow> taxed_money" where
  "shipping_price o1 =
     \<lparr>net = shipping_price_net_amount o1, gross = shipping_price_gross_amount o1\<rparr>"

definition set_shipping_price :: "taxed_money \<Rightarrow> order \<Rightarrow> order" where
  "set_shipping_price t o1 =
     o1\<lparr>shipping_price_net_amount := net t, shipping_price_gross_amount := gross t\<rparr>"

definition unit_price :: "order_line \<Rightarrow> taxed_money" where
  "unit_price l = \<lparr>net = unit_price_net_amount l, gross = unit_price_gross_amount l\<rparr>"

definition set_unit_price :: "taxed_money \<Rightarrow> order_line \<Rightarrow> order_line" where
  "set_unit_price t l = l\<lparr>unit_price_net_amount := net t, unit_price_gross_amount := gross t\<rparr>"

definition undiscounted_unit_price :: "order_line \<Rightarrow> taxed_money" where
  "undiscounted_unit_price l =
     \<lparr>net = undiscounted_unit_price_net_amount l,
      gross = undiscounted_unit_price_gross_amount l\<rparr>"

definition set_undiscounted_unit_price :: "taxed_money \<Rightarrow> order_line \<Rightarrow> order_line" where
  "set_undiscounted_unit_price t l =
     l\<lparr>undiscounted_unit_price_net_amount := net t,
       undiscounted_unit_price_gross_amount := gross t\<rparr>"

definition total_price :: "order_line \<Rightarrow> taxed_money" where
  "total_price l = \<lparr>net = total_price_net_amount l, gross = total_price_gross_amount l\<rparr>"

definition set_total_price :: "taxed_money \<Rightarrow> order_line \<Rightarrow> order_line" where
  "set_total_price t l =
     l\<lparr>total_price_net_amount := net t, total_price_gross_amount := gross t\<rparr>"

definition undiscounted_total_price :: "order_line \<Rightarrow> taxed_money" where
  "undiscounted_total_price l =
     \<lparr>net = undiscounted_total_price_net_amount l,
      gross = undiscounted_total_price_gross_amount l\<rparr>"

definition set_undiscounted_total_price :: "taxed_money \<Rightarrow> order_line \<Rightarrow> order_line" where
  "set_undiscounted_total_price t l =
     l\<lparr>undiscounted_total_price_net_amount := net t,
       undiscounted_total_price_gross_amount := gross t\<rparr>"

section \<open>Tax data and the collaborators of the pricing core\<close>

record tax_line_data =
  tl_id :: nat
  tl_unit_net_amount :: decimal
  tl_unit_gross_amount :: decimal
  tl_total_net_amount :: decimal
  tl_total_gross_amount :: decimal
  tl_tax_rate :: decimal

record tax_data =
  td_shipping_price_net_amount :: decimal
  td_shipping_price_gross_amount :: decimal
  td_shipping_tax_rate :: decimal
  td_subtotal_net_amount :: decimal
  td_subtotal_gross_amount :: decimal
  td_total_net_amount :: decimal
  td_total_gross_amount :: decimal
  td_lines :: "tax_line_data list"

record order_taxed_prices_data =
  undiscounted_price :: taxed_money
  price_with_discounts :: taxed_money

text \<open>
  The \<open>PluginsManager\<close> is an external collaborator: each of its methods is a parameter
  that returns a value or raises (\<open>Inl\<close>). The variant and the product passed beside a
  line are the line's own.
\<close>

record plugins_manager =
  calculate_order_line_unit :: "order \<Rightarrow> order_line \<Rightarrow> error + order_taxed_prices_data"
  calculate_order_line_total :: "order \<Rightarrow> order_line \<Rightarrow> error + order_taxed_prices_data"
  get_order_line_tax_rate :: "order \<Rightarrow> variant \<Rightarrow> taxed_money \<Rightarrow> error + decimal"
  calculate_order_shipping :: "order \<Rightarrow> error + taxed_money"
  get_order_shipping_tax_rate :: "order \<Rightarrow> taxed_money \<Rightarrow> error + decimal"
  calculate_order_total :: "order \<Rightarrow> order_line list \<Rightarrow> error + taxed_money"
  get_taxes_for_order :: "order \<Rightarrow> error + tax_data option"

text \<open>
  The functions \<open>calculations.py\<close> imports from modules outside the verified files are
  parameters too. \<open>apply_order_discounts\<close> and \<open>update_order_prices_with_flat_rates\<close>
  mutate the order and the lines they are given; here they return the mutated pair.
\<close>

record env =
  manager :: plugins_manager
  apply_order_discounts :: "order \<Rightarrow> order_line list \<Rightarrow> order \<times> order_line list"
  update_order_prices_with_flat_rates ::
    "order \<Rightarrow> order_line list \<Rightarrow> bool \<Rightarrow> order \<times> order_line list"
  get_tax_calculation_strategy_for_order :: "order \<Rightarrow> tax_calculation_strategy"
  get_charge_taxes_for_order :: "order \<Rightarrow> bool"
  normalize_tax_rate_for_db :: "decimal \<Rightarrow> decimal"

text \<open>
  The persisted state the recalculation touches: the order's row, the rows of
  \<open>order.lines\<close>, the rows of \<open>order.discounts\<close>, and the order ids held by the
  request's \<open>OrderLinesByOrderIdLoader\<close>.
\<close>

record db =
  db_order :: order
  db_lines :: "order_line list"
  db_discounts :: "order_discount list"
  loader_cache :: "nat list"

section \<open>order/calculations.py\<close>

subsection \<open>Voucher discount resolution\<close>

definition voucher_id :: "order \<Rightarrow> nat option" where
  "voucher_id o1 = map_option voucher_pk (voucher o1)"

text \<open>Truthiness of a nullable integer key: \<open>None\<close> and \<open>0\<close> are false.\<close>

definition truthy_id :: "nat option \<Rightarrow> bool" where
  "truthy_id i = (case i of None \<Rightarrow> False | Some n \<Rightarrow> n \<noteq> 0)"

text \<open>\<open>voucher.channel_listings.filter(channel=order.channel).first()\<close>\<close>

definition first_channel_listing :: "voucher \<Rightarrow> channel \<Rightarrow> voucher_channel_listing option" where
  "first_channel_listing v c =
     List.find (\<lambda>l. listing_channel l = channel_pk c) (channel_listings v)"

definition voucher_reason :: "voucher \<Rightarrow> string" where
  "voucher_reason v =
     ''Voucher: '' @ (case voucher_name v of None \<Rightarrow> ''None'' | Some n \<Rightarrow> n)"

text \<open>
  \<open>_update_order_discount_for_voucher\<close>. A filter on \<open>voucher_code=None\<close> selects the
  rows whose code is null, which is equality on \<open>option\<close>. The prefetch cache is dropped
  and filled again from the table.
\<close>

definition update_order_discount_for_voucher :: "db \<Rightarrow> order \<Rightarrow> db \<times> order" where
  "update_order_discount_for_voucher d o1 =
     (let d1 =
        (if \<not> truthy_id (voucher_id o1) then
           d\<lparr>db_discounts := filter (\<lambda>x. discount_type x \<noteq> VOUCHER) (db_discounts d)\<rparr>
         else if truthy_id (voucher_id o1)
                 \<and> \<not> list_ex (\<lambda>x. discount_voucher_code x = voucher_code o1) (db_discounts d)
         then
           (case voucher o1 of
              None \<Rightarrow> d
            | Some v \<Rightarrow>
               (case first_channel_listing v (channel o1) of
                  None \<Rightarrow> d
                | Some l \<Rightarrow>
                    d\<lparr>db_discounts := db_discounts d @
                       [\<lparr>value_type = discount_value_type v,
                         discount_value = listing_discount_value l,
                         reason = voucher_reason v,
                         discount_voucher = Some (voucher_pk v),
                         discount_type = VOUCHER,
                         discount_voucher_code = voucher_code o1\<rparr>]\<rparr>))
         else d)
      in (d1, o1\<lparr>prefetched_discounts := Some (db_discounts d1)\<rparr>))"

subsection \<open>Taxes from plugins\<close>

text \<open>\<open>except TaxError: pass\<close> keeps the state reached; any other exception propagates.\<close>

definition except_TaxError :: "error \<Rightarrow> 'a \<Rightarrow> error + 'a" where
  "except_TaxError e s = (if e = TaxError then Inr s else Inl e)"

text \<open>
  The body of the loop over the lines in \<open>_apply_tax_data_from_plugins\<close>: the line and
  the running undiscounted subtotal, as far as the \<open>try\<close> block got.
\<close>

definition apply_line_from_plugins ::
  "plugins_manager \<Rightarrow> order \<Rightarrow> order_line \<Rightarrow> taxed_money
     \<Rightarrow> error + (order_line \<times> taxed_money)" where
  "apply_line_from_plugins m o1 l sub =
     (case variant l of
        None \<Rightarrow> Inr (l, sub)
      | Some v \<Rightarrow>
         (case calculate_order_line_unit m o1 l of
            Inl e \<Rightarrow> except_TaxError e (l, sub)
          | Inr line_unit \<Rightarrow>
             (let l1 = set_undiscounted_unit_price (undiscounted_price line_unit) l;
                  l2 = set_unit_price (price_with_discounts line_unit) l1
              in case calculate_order_line_total m o1 l2 of
                   Inl e \<Rightarrow> except_TaxError e (l2, sub)
                 | Inr line_total \<Rightarrow>
                    (let l3 = set_undiscounted_total_price (undiscounted_price line_total) l2;
                         sub1 = taxed_money_add sub (undiscounted_price line_total);
                         l4 = set_total_price (price_with_discounts line_total) l3
                     in case get_order_line_tax_rate m o1 v (undiscounted_price line_unit) of
                          Inl e \<Rightarrow> except_TaxError e (l4, sub1)
                        | Inr r \<Rightarrow> Inr (l4\<lparr>tax_rate := Some r\<rparr>, sub1)))))"

fun apply_lines_from_plugins ::
  "plugins_manager \<Rightarrow> order \<Rightarrow> order_line list \<Rightarrow> taxed_money
     \<Rightarrow> error + (order_line list \<times> taxed_money)" where
  "apply_lines_from_plugins m o1 [] sub = Inr ([], sub)"
| "apply_lines_from_plugins m o1 (l # ls) sub =
     (case apply_line_from_plugins m o1 l sub of
        Inl e \<Rightarrow> Inl e
      | Inr (l', sub1) \<Rightarrow>
         (case apply_lines_from_plugins m o1 ls sub1 of
            Inl e \<Rightarrow> Inl e
          | Inr (ls', sub2) \<Rightarrow> Inr (l' # ls', sub2)))"

text \<open>The second \<open>try\<close> block: the shipping price, then the shipping tax rate.\<close>

definition apply_shipping_from_plugins :: "plugins_manager \<Rightarrow> order \<Rightarrow> error + order" where
  "apply_shipping_from_plugins m o1 =
     (case calculate_order_shipping m o1 of
        Inl e \<Rightarrow> except_TaxError e o1
      | Inr sp \<Rightarrow>
         (let o2 = set_shipping_price sp o1
          in case get_order_shipping_tax_rate m o2 (shipping_price o2) of
               Inl e \<Rightarrow> except_TaxError e o2
             | Inr r \<Rightarrow> Inr (o2\<lparr>shipping_tax_rate := Some r\<rparr>)))"

definition apply_tax_data_from_plugins ::
  "plugins_manager \<Rightarrow> order \<Rightarrow> order_line list \<Rightarrow> error + (order \<times> order_line list)" where
  "apply_tax_data_from_plugins m o1 ls =
     (case apply_lines_from_plugins m o1 ls (zero_taxed_money (currency o1)) of
        Inl e \<Rightarrow> Inl e
      | Inr (ls', undiscounted_subtotal) \<Rightarrow>
         (case apply_shipping_from_plugins m o1 of
            Inl e \<Rightarrow> Inl e
          | Inr o2 \<Rightarrow>
             (let o3 = set_undiscounted_total
                         (taxed_money_add undiscounted_subtotal
                            \<lparr>net = base_shipping_price_amount o2,
                             gross = base_shipping_price_amount o2\<rparr>) o2
              in case calculate_order_total m o3 ls' of
                   Inl e \<Rightarrow> Inl e
                 | Inr t \<Rightarrow> Inr (set_total t o3, ls'))))"

subsection \<open>Taxes from the tax app\<close>

text \<open>
  The loop over \<open>zip(lines, tax_data.lines)\<close> in \<open>_apply_tax_data\<close>: it stops at the
  shorter list, and the lines beyond it stay as they are.
\<close>

fun apply_tax_lines ::
  "(decimal \<Rightarrow> decimal) \<Rightarrow> order_line list \<Rightarrow> tax_line_data list \<Rightarrow> taxed_money
     \<Rightarrow> error + (order_line list \<times> taxed_money)" where
  "apply_tax_lines nrm [] ts sub = Inr ([], sub)"
| "apply_tax_lines nrm (l # ls) [] sub = Inr (l # ls, sub)"
| "apply_tax_lines nrm (l # ls) (t # ts) sub =
     (let line_total_price = \<lparr>net = tl_total_net_amount t, gross = tl_total_gross_amount t\<rparr>;
          l1 = set_total_price line_total_price l
      in case taxed_money_truediv line_total_price (quantity l1) of
           Inl e \<Rightarrow> Inl e
         | Inr u \<Rightarrow>
            (let l2 = set_unit_price u l1;
                 l3 = l2\<lparr>tax_rate := Some (nrm (tl_tax_rate t))\<rparr>
             in case apply_tax_lines nrm ls ts (taxed_money_add sub line_total_price) of
                  Inl e \<Rightarrow> Inl e
                | Inr (ls', sub1) \<Rightarrow> Inr (l3 # ls', sub1)))"

definition apply_tax_data ::
  "env \<Rightarrow> order \<Rightarrow> order_line list \<Rightarrow> tax_data option
     \<Rightarrow> error + (order \<times> order_line list)" where
  "apply_tax_data ev o1 ls tdo =
     (case tdo of
        None \<Rightarrow> Inr (o1, ls)
      | Some td \<Rightarrow>
         (let sp = \<lparr>net = td_shipping_price_net_amount td,
                    gross = td_shipping_price_gross_amount td\<rparr>;
              o2 = set_shipping_price sp o1;
              o3 = o2\<lparr>shipping_tax_rate :=
                        Some (normalize_tax_rate_for_db ev (td_shipping_tax_rate td))\<rparr>
          in case apply_tax_lines (normalize_tax_rate_for_db ev) ls (td_lines td)
                    (zero_taxed_money (currency o3)) of
               Inl e \<Rightarrow> Inl e
             | Inr (ls', subtotal) \<Rightarrow> Inr (set_total (taxed_money_add sp subtotal) o3, ls')))"

subsection \<open>Removing the tax, and the choice of strategy\<close>

definition remove_tax_line :: "order_line \<Rightarrow> order_line" where
  "remove_tax_line l =
     l\<lparr>unit_price_gross_amount := unit_price_net_amount l,
       undiscounted_unit_price_gross_amount := undiscounted_unit_price_net_amount l,
       total_price_gross_amount := total_price_net_amount l,
       undiscounted_total_price_gross_amount := undiscounted_total_price_net_amount l,
       tax_rate := Some 0\<rparr>"

definition remove_tax :: "order \<Rightarrow> order_line list \<Rightarrow> order \<times> order_line list" where
  "remove_tax o1 ls =
     (o1\<lparr>total_gross_amount := total_net_amount o1,
         undiscounted_total_gross_amount := undiscounted_total_net_amount o1,
         shipping_price_gross_amount := shipping_price_net_amount o1,
         shipping_tax_rate := Some 0\<rparr>,
      map remove_tax_line ls)"

definition calculate_and_add_tax ::
  "env \<Rightarrow> tax_calculation_strategy \<Rightarrow> order \<Rightarrow> order_line list \<Rightarrow> bool
     \<Rightarrow> error + (order \<times> order_line list)" where
  "calculate_and_add_tax ev strategy o1 ls pewt =
     (if strategy = TAX_APP then
        (case apply_tax_data_from_plugins (manager ev) o1 ls of
           Inl e \<Rightarrow> Inl e
         | Inr (o2, ls2) \<Rightarrow>
            (case get_taxes_for_order (manager ev) o2 of
               Inl e \<Rightarrow> Inl e
             | Inr tdo \<Rightarrow> apply_tax_data ev o2 ls2 tdo))
      else Inr (update_order_prices_with_flat_rates ev o1 ls pewt))"

definition calculate_taxes ::
  "env \<Rightarrow> order \<Rightarrow> order_line list \<Rightarrow> error + (order \<times> order_line list)" where
  "calculate_taxes ev o1 ls =
     (let tax_calculation_strategy = get_tax_calculation_strategy_for_order ev o1;
          pewt = prices_entered_with_tax (tax_configuration (channel o1));
          charge_taxes = get_charge_taxes_for_order ev o1;
          should_charge_tax = (charge_taxes \<and> \<not> tax_exemption o1)
      in if pewt then
           (case calculate_and_add_tax ev tax_calculation_strategy o1 ls pewt of
              Inl e \<Rightarrow> Inl e
            | Inr (o2, ls2) \<Rightarrow>
               (if \<not> should_charge_tax then Inr (remove_tax o2 ls2) else Inr (o2, ls2)))
         else if should_charge_tax then
           calculate_and_add_tax ev tax_calculation_strategy o1 ls pewt
         else Inr (o1, ls))"

subsection \<open>The recalculation\<close>

text \<open>\<open>order.save(update_fields=[...])\<close> writes the listed fields to the order's row.\<close>

definition save_order :: "order \<Rightarrow> order \<Rightarrow> order" where
  "save_order row o1 =
     row\<lparr>total_net_amount := total_net_amount o1,
         total_gross_amount := total_gross_amount o1,
         undiscounted_total_net_amount := undiscounted_total_net_amount o1,
         undiscounted_total_gross_amount := undiscounted_total_gross_amount o1,
         shipping_price_net_amount := shipping_price_net_amount o1,
         shipping_price_gross_amount := shipping_price_gross_amount o1,
         shipping_tax_rate := shipping_tax_rate o1,
         should_refresh_prices := should_refresh_prices o1\<rparr>"

text \<open>
  \<open>order.lines.bulk_update(lines, [...])\<close> writes the listed fields of each given line to
  the row with the line's key.
\<close>

definition save_line :: "order_line \<Rightarrow> order_line \<Rightarrow> order_line" where
  "save_line row l =
     row\<lparr>unit_price_net_amount := unit_price_net_amount l,
         unit_price_gross_amount := unit_price_gross_amount l,
         undiscounted_unit_price_net_amount := undiscounted_unit_price_net_amount l,
         undiscounted_unit_price_gross_amount := undiscounted_unit_price_gross_amount l,
         total_price_net_amount := total_price_net_amount l,
         total_price_gross_amount := total_price_gross_amount l,
         undiscounted_total_price_net_amount := undiscounted_total_price_net_amount l,
         undiscounted_total_price_gross_amount := undiscounted_total_price_gross_amount l,
         tax_rate := tax_rate l,
         unit_discount_amount := unit_discount_amount l\<rparr>"

definition bulk_update :: "order_line list \<Rightarrow> order_line list \<Rightarrow> order_line list" where
  "bulk_update rows ls =
     map (\<lambda>row. case List.find (\<lambda>l. line_pk l = line_pk row) ls of
                  None \<Rightarrow> row
                | Some l \<Rightarrow> save_line row l) rows"

text \<open>
  The statements of \<open>fetch_order_prices_and_update_if_expired\<close> between the gate and
  the taxes: the lines are loaded when none were given, the staleness flag is cleared,
  the voucher discount is resolved and the order-level discounts are applied.
\<close>

definition prepare_prices ::
  "env \<Rightarrow> db \<Rightarrow> order \<Rightarrow> order_line list option \<Rightarrow> db \<times> order \<times> order_line list" where
  "prepare_prices ev d o1 lines =
     (let ls = (case lines of None \<Rightarrow> db_lines d | Some xs \<Rightarrow> xs);
          o2 = o1\<lparr>should_refresh_prices := False\<rparr>;
          (d1, o3) = update_order_discount_for_voucher d o2;
          (o4, ls4) = apply_order_discounts ev o3 ls
      in (d1, o4, ls4))"

text \<open>The writes inside \<open>transaction.atomic\<close>.\<close>

definition persist_prices :: "db \<Rightarrow> order \<Rightarrow> order_line list \<Rightarrow> bool \<Rightarrow> db" where
  "persist_prices d1 o5 ls5 info =
     (let d2 = d1\<lparr>db_order := save_order (db_order d1) o5\<rparr>;
          d3 = d2\<lparr>db_lines := bulk_update (db_lines d2) ls5\<rparr>
      in if info then d3\<lparr>loader_cache := removeAll (order_pk o5) (loader_cache d3)\<rparr>
         else d3)"

text \<open>
  \<open>fetch_order_prices_and_update_if_expired\<close>. \<open>lines\<close> is optional; \<open>info\<close> is
  whether a \<open>ResolveInfo\<close> was passed. The result is the database with the returned pair,
  or the exception that left the function.
\<close>

definition fetch_order_prices_and_update_if_expired ::
  "env \<Rightarrow> db \<Rightarrow> order \<Rightarrow> order_line list option \<Rightarrow> bool \<Rightarrow> bool
     \<Rightarrow> error + (db \<times> order \<times> order_line list option)" where
  "fetch_order_prices_and_update_if_expired ev d o1 lines force_update info =
     (if status o1 \<notin> set ORDER_EDITABLE_STATUS then Inr (d, o1, lines)
      else if \<not> force_update \<and> \<not> should_refresh_prices o1 then Inr (d, o1, lines)
      else
        (case prepare_prices ev d o1 lines of
           (d1, o4, ls4) \<Rightarrow>
             (case calculate_taxes ev o4 ls4 of
                Inl e \<Rightarrow> Inl e
              | Inr (o5, ls5) \<Rightarrow> Inr (persist_prices d1 o5 ls5 info, o5, Some ls5))))"

text \<open>What a call returned, without the database: \<open>None\<close> when it raised.\<close>

definition returned ::
  "error + (db \<times> order \<times> order_line list option) \<Rightarrow> (order \<times> order_line list option) option"
  where
  "returned r = (case r of Inl e \<Rightarrow> None | Inr (d, o1, lines) \<Rightarrow> Some (o1, lines))"

section \<open>checkout/calculations.py\<close>

type_synonym address = nat

type_synonym discount_info = nat

record checkout_line =
  cl_id :: nat
  cl_quantity :: int
  cl_unit_price :: taxed_money
  cl_total_price :: taxed_money

record checkout_line_info =
  line :: checkout_line

text \<open>Times are seconds on one clock; \<open>price_expiration\<close> is an instant.\<close>

record checkout =
  co_currency :: string
  co_total :: taxed_money
  co_subtotal :: taxed_money
  co_shipping_price :: taxed_money
  price_expiration :: int

record checkout_info =
  checkout :: checkout

record checkout_manager =
  calculate_checkout_line_total ::
    "checkout_info \<Rightarrow> checkout_line_info list \<Rightarrow> checkout_line_info \<Rightarrow> address option
       \<Rightarrow> discount_info list \<Rightarrow> error + taxed_money"
  calculate_checkout_line_unit_price ::
    "taxed_money \<Rightarrow> int \<Rightarrow> checkout_info \<Rightarrow> checkout_line_info list \<Rightarrow> checkout_line_info
       \<Rightarrow> address option \<Rightarrow> discount_info list \<Rightarrow> error + taxed_money"
  calculate_checkout_shipping ::
    "checkout_info \<Rightarrow> checkout_line_info list \<Rightarrow> address option \<Rightarrow> discount_info list
       \<Rightarrow> error + taxed_money"
  calculate_checkout_subtotal ::
    "checkout_info \<Rightarrow> checkout_line_info list \<Rightarrow> address option \<Rightarrow> discount_info list
       \<Rightarrow> error + taxed_money"
  calculate_checkout_total ::
    "checkout_info \<Rightarrow> checkout_line_info list \<Rightarrow> address option \<Rightarrow> discount_info list
       \<Rightarrow> error + taxed_money"
  get_taxes_for_checkout :: "checkout \<Rightarrow> error + tax_data option"

text \<open>
  What the checkout functions read from outside the verified files: the manager, the two
  readings of \<open>timezone.now()\<close> (at the gate, and when the new expiration is set),
  \<open>settings.CHECKOUT_PRICES_TTL\<close>, \<open>quantize_price\<close> and the checkout's
  \<open>get_total_gift_cards_balance\<close>.
\<close>

record checkout_env =
  checkout_manager :: checkout_manager
  now_at_gate :: int
  now_at_update :: int
  CHECKOUT_PRICES_TTL :: int
  quantize_price :: "taxed_money \<Rightarrow> string \<Rightarrow> taxed_money"
  get_total_gift_cards_balance :: "checkout \<Rightarrow> decimal"

record checkout_db =
  cdb_checkout :: checkout
  cdb_lines :: "checkout_line list"

text \<open>
  The loop of the checkout's \<open>_apply_tax_data_from_plugins\<close>. The manager is handed the
  whole list of lines, in which the lines already visited carry their new prices:
  \<open>visited\<close> are those, \<open>li # rest\<close> the line at hand and the lines to come.
\<close>

fun checkout_lines_from_plugins ::
  "checkout_manager \<Rightarrow> checkout_info \<Rightarrow> address option \<Rightarrow> discount_info list
     \<Rightarrow> checkout_line_info list \<Rightarrow> checkout_line_info list
     \<Rightarrow> error + checkout_line_info list" where
  "checkout_lines_from_plugins m ci addr ds visited [] = Inr visited"
| "checkout_lines_from_plugins m ci addr ds visited (li # rest) =
     (case calculate_checkout_line_total m ci (visited @ li # rest) li addr ds of
        Inl e \<Rightarrow> Inl e
      | Inr tp \<Rightarrow>
         (let li1 = li\<lparr>line := (line li)\<lparr>cl_total_price := tp\<rparr>\<rparr>
          in case calculate_checkout_line_unit_price m (cl_total_price (line li1))
                    (cl_quantity (line li1)) ci (visited @ li1 # rest) li1 addr ds of
               Inl e \<Rightarrow> Inl e
             | Inr up \<Rightarrow>
                checkout_lines_from_plugins m ci addr ds
                  (visited @ [li1\<lparr>line := (line li1)\<lparr>cl_unit_price := up\<rparr>\<rparr>]) rest))"

text \<open>
  \<open>checkout_info.checkout\<close> is the checkout being written, so each later call of the
  manager sees the prices set so far.
\<close>

definition checkout_apply_tax_data_from_plugins ::
  "checkout_manager \<Rightarrow> checkout \<Rightarrow> checkout_line_info list \<Rightarrow> address option
     \<Rightarrow> discount_info list \<Rightarrow> error + (checkout \<times> checkout_line_info list)" where
  "checkout_apply_tax_data_from_plugins m c ls addr ds =
     (case checkout_lines_from_plugins m \<lparr>checkout = c\<rparr> addr ds [] ls of
        Inl e \<Rightarrow> Inl e
      | Inr ls1 \<Rightarrow>
         (case calculate_checkout_shipping m \<lparr>checkout = c\<rparr> ls1 addr ds of
            Inl e \<Rightarrow> Inl e
          | Inr sp \<Rightarrow>
             (let c1 = c\<lparr>co_shipping_price := sp\<rparr>
              in case calculate_checkout_subtotal m \<lparr>checkout = c1\<rparr> ls1 addr ds of
                   Inl e \<Rightarrow> Inl e
                 | Inr st \<Rightarrow>
                    (let c2 = c1\<lparr>co_subtotal := st\<rparr>
                     in case calculate_checkout_total m \<lparr>checkout = c2\<rparr> ls1 addr ds of
                          Inl e \<Rightarrow> Inl e
                        | Inr t \<Rightarrow> Inr (c2\<lparr>co_total := t\<rparr>, ls1)))))"

text \<open>
  The dictionary \<open>tax_lines_data\<close> keeps the last entry of each id; a line whose id is
  not in it raises \<open>KeyError\<close>.
\<close>

definition tax_lines_data :: "tax_data \<Rightarrow> nat \<Rightarrow> tax_line_data option" where
  "tax_lines_data td = map_of (rev (map (\<lambda>t. (tl_id t, t)) (td_lines td)))"

definition create_quantized_taxed_money ::
  "checkout_env \<Rightarrow> checkout \<Rightarrow> decimal \<Rightarrow> decimal \<Rightarrow> taxed_money" where
  "create_quantized_taxed_money ev c n g =
     quantize_price ev \<lparr>net = n, gross = g\<rparr> (co_currency c)"

fun checkout_apply_tax_lines ::
  "checkout_env \<Rightarrow> checkout \<Rightarrow> tax_data \<Rightarrow> checkout_line_info list
     \<Rightarrow> error + checkout_line_info list" where
  "checkout_apply_tax_lines ev c td [] = Inr []"
| "checkout_apply_tax_lines ev c td (li # rest) =
     (case tax_lines_data td (cl_id (line li)) of
        None \<Rightarrow> Inl KeyError
      | Some t \<Rightarrow>
         (let l1 = (line li)\<lparr>cl_unit_price :=
                      create_quantized_taxed_money ev c (tl_unit_net_amount t)
                        (tl_unit_gross_amount t)\<rparr>;
              l2 = l1\<lparr>cl_total_price :=
                      create_quantized_taxed_money ev c (tl_total_net_amount t)
                        (tl_total_gross_amount t)\<rparr>
          in case checkout_apply_tax_lines ev c td rest of
               Inl e \<Rightarrow> Inl e
             | Inr rest' \<Rightarrow> Inr (li\<lparr>line := l2\<rparr> # rest')))"

definition checkout_apply_tax_data ::
  "checkout_env \<Rightarrow> checkout \<Rightarrow> checkout_line_info list \<Rightarrow> tax_data
     \<Rightarrow> error + (checkout \<times> checkout_line_info list)" where
  "checkout_apply_tax_data ev c ls td =
     (let c1 = c\<lparr>co_total :=
                  create_quantized_taxed_money ev c (td_total_net_amount td)
                    (td_total_gross_amount td)\<rparr>;
          c2 = c1\<lparr>co_subtotal :=
                  create_quantized_taxed_money ev c (td_subtotal_net_amount td)
                    (td_subtotal_gross_amount td)\<rparr>;
          c3 = c2\<lparr>co_shipping_price :=
                  create_quantized_taxed_money ev c (td_shipping_price_net_amount td)
                    (td_shipping_price_gross_amount td)\<rparr>
      in case checkout_apply_tax_lines ev c3 td ls of
           Inl e \<Rightarrow> Inl e
         | Inr ls' \<Rightarrow> Inr (c3, ls'))"

text \<open>\<open>checkout.save(update_fields=[...])\<close> and \<open>checkout.lines.bulk_update\<close>.\<close>

definition save_checkout :: "checkout \<Rightarrow> checkout \<Rightarrow> checkout" where
  "save_checkout row c =
     row\<lparr>co_total := co_total c, co_subtotal := co_subtotal c,
         co_shipping_price := co_shipping_price c,
         price_expiration := price_expiration c\<rparr>"

definition checkout_bulk_update ::
  "checkout_line list \<Rightarrow> checkout_line list \<Rightarrow> checkout_line list" where
  "checkout_bulk_update rows ls =
     map (\<lambda>row. case List.find (\<lambda>l. cl_id l = cl_id row) ls of
                  None \<Rightarrow> row
                | Some l \<Rightarrow> row\<lparr>cl_unit_price := cl_unit_price l,
                                 cl_total_price := cl_total_price l\<rparr>) rows"

text \<open>
  \<open>fetch_checkout_prices_if_expired\<close>: the database, the checkout it returns and the
  lines, whose prices it writes in place.
\<close>

definition fetch_checkout_prices_if_expired ::
  "checkout_env \<Rightarrow> checkout_db \<Rightarrow> checkout_info \<Rightarrow> checkout_line_info list
     \<Rightarrow> address option \<Rightarrow> discount_info list \<Rightarrow> bool
     \<Rightarrow> error + (checkout_db \<times> checkout \<times> checkout_line_info list)" where
  "fetch_checkout_prices_if_expired ev d ci ls addr ds force_update =
     (let c = checkout ci
      in if \<not> force_update \<and> price_expiration c < now_at_gate ev then Inr (d, c, ls)
         else
           (case checkout_apply_tax_data_from_plugins (checkout_manager ev) c ls addr ds of
              Inl e \<Rightarrow> Inl e
            | Inr (c1, ls1) \<Rightarrow>
               (case get_taxes_for_checkout (checkout_manager ev) c1 of
                  Inl e \<Rightarrow> Inl e
                | Inr tdo \<Rightarrow>
                   (case (case tdo of
                            None \<Rightarrow> Inr (c1, ls1)
                          | Some td \<Rightarrow> checkout_apply_tax_data ev c1 ls1 td) of
                      Inl e \<Rightarrow> Inl e
                    | Inr (c2, ls2) \<Rightarrow>
                       (let c3 = c2\<lparr>price_expiration :=
                                       now_at_update ev + CHECKOUT_PRICES_TTL ev\<rparr>;
                            d1 = d\<lparr>cdb_checkout := save_checkout (cdb_checkout d) c3\<rparr>;
                            d2 = d1\<lparr>cdb_lines :=
                                      checkout_bulk_update (cdb_lines d1) (map line ls2)\<rparr>
                        in Inr (d2, c3, ls2))))))"

definition checkout_total ::
  "checkout_env \<Rightarrow> checkout_db \<Rightarrow> checkout_info \<Rightarrow> checkout_line_info list
     \<Rightarrow> address option \<Rightarrow> discount_info list
     \<Rightarrow> error + (checkout_db \<times> checkout \<times> checkout_line_info list \<times> taxed_money)" where
  "checkout_total ev d ci ls addr ds =
     (case fetch_checkout_prices_if_expired ev d ci ls addr ds False of
        Inl e \<Rightarrow> Inl e
      | Inr (d1, c1, ls1) \<Rightarrow> Inr (d1, c1, ls1, co_total c1))"

text \<open>
  \<open>calculate_checkout_total_with_gift_cards\<close>: the balance is read from the checkout
  after \<open>checkout_total\<close> has run.
\<close>

definition calculate_checkout_total_with_gift_cards ::
  "checkout_env \<Rightarrow> checkout_db \<Rightarrow> checkout_info \<Rightarrow> checkout_line_info list
     \<Rightarrow> address option \<Rightarrow> discount_info list
     \<Rightarrow> error + (checkout_db \<times> checkout \<times> checkout_line_info list \<times> taxed_money)" where
  "calculate_checkout_total_with_gift_cards ev d ci ls addr ds =
     (case checkout_total ev d ci ls addr ds of
        Inl e \<Rightarrow> Inl e
      | Inr (d1, c1, ls1, t) \<Rightarrow>
         (let total1 = taxed_money_sub_money t (get_total_gift_cards_balance ev c1)
          in Inr (d1, c1, ls1,
                  taxed_money_max total1 (zero_taxed_money (co_currency c1)))))"

text \<open>The invariant of the order's total: shipping price plus the lines' total prices.\<close>

definition lines_subtotal :: "order_line list \<Rightarrow> taxed_money" where
  "lines_subtotal ls =
     \<lparr>net = sum_list (map total_price_net_amount ls),
      gross = sum_list (map total_price_gross_amount ls)\<rparr>"

section \<open>Concrete orders and collaborators\<close>

definition ex_channel :: channel where
  "ex_channel = \<lparr>channel_pk = 1, tax_configuration = \<lparr>prices_entered_with_tax = True\<rparr>\<rparr>"

definition ex_voucher :: voucher where
  "ex_voucher =
     \<lparr>voucher_pk = 3, voucher_name = Some ''Spring'', discount_value_type = FIXED,
      channel_listings = [\<lparr>listing_channel = 1, listing_discount_value = 10\<rparr>]\<rparr>"

definition ex_line1 :: order_line where
  "ex_line1 =
     \<lparr>line_pk = 1, variant = Some \<lparr>variant_pk = 11, product = 21\<rparr>, quantity = 5,
      unit_price_net_amount = 20, unit_price_gross_amount = 20,
      undiscounted_unit_price_net_amount = 20, undiscounted_unit_price_gross_amount = 20,
      total_price_net_amount = 100, total_price_gross_amount = 100,
      undiscounted_total_price_net_amount = 100, undiscounted_total_price_gross_amount = 100,
      tax_rate = None, unit_discount_amount = 0\<rparr>"

definition ex_line2 :: order_line where
  "ex_line2 =
     \<lparr>line_pk = 2, variant = Some \<lparr>variant_pk = 12, product = 22\<rparr>, quantity = 2,
      unit_price_net_amount = 15, unit_price_gross_amount = 15,
      undiscounted_unit_price_net_amount = 15, undiscounted_unit_price_gross_amount = 15,
      total_price_net_amount = 30, total_price_gross_amount = 30,
      undiscounted_total_price_net_amount = 30, undiscounted_total_price_gross_amount = 30,
      tax_rate = None, unit_discount_amount = 0\<rparr>"

definition ex_order :: order where
  "ex_order =
     \<lparr>order_pk = 7, status = UNCONFIRMED, should_refresh_prices = True,
      voucher = None, voucher_code = None, channel = ex_channel, currency = ''USD'',
      tax_exemption = False, base_shipping_price_amount = 10,
      total_net_amount = 140, total_gross_amount = 140,
      undiscounted_total_net_amount = 140, undiscounted_total_gross_amount = 140,
      shipping_price_net_amount = 10, shipping_price_gross_amount = 10,
      shipping_tax_rate = None, prefetched_discounts = None\<rparr>"

definition ex_db :: db where
  "ex_db =
     \<lparr>db_order = ex_order, db_lines = [ex_line1, ex_line2], db_discounts = [],
      loader_cache = [7]\<rparr>"

definition ex_old_discount :: order_discount where
  "ex_old_discount =
     \<lparr>value_type = FIXED, discount_value = 5, reason = ''Voucher: Winter'',
      discount_voucher = Some 2, discount_type = VOUCHER,
      discount_voucher_code = Some ''OLD''\<rparr>"

text \<open>An order that carries the voucher under the code \<open>NEW\<close>.\<close>

definition ex_order_new_code :: order where
  "ex_order_new_code = ex_order\<lparr>voucher := Some ex_voucher, voucher_code := Some ''NEW''\<rparr>"

text \<open>A manager that answers from the prices the order and the lines carry.\<close>

definition echo_manager :: "tax_data option \<Rightarrow> plugins_manager" where
  "echo_manager tdo =
     \<lparr>calculate_order_line_unit =
        (\<lambda>o1 l. Inr \<lparr>undiscounted_price = undiscounted_unit_price l,
                       price_with_discounts = unit_price l\<rparr>),
      calculate_order_line_total =
        (\<lambda>o1 l. Inr \<lparr>undiscounted_price = undiscounted_total_price l,
                       price_with_discounts = total_price l\<rparr>),
      get_order_line_tax_rate = (\<lambda>o1 v p. Inr 0),
      calculate_order_shipping = (\<lambda>o1. Inr (shipping_price o1)),
      get_order_shipping_tax_rate = (\<lambda>o1 p. Inr 0),
      calculate_order_total =
        (\<lambda>o1 ls. Inr (taxed_money_add (shipping_price o1) (lines_subtotal ls))),
      get_taxes_for_order = (\<lambda>o1. Inr tdo)\<rparr>"

text \<open>
  A manager whose five calls inside the \<open>try\<close> blocks raise \<open>TaxError\<close>, whose
  \<open>calculate_order_total\<close> answers 7 and which has no tax data.
\<close>

definition failing_manager :: plugins_manager where
  "failing_manager =
     \<lparr>calculate_order_line_unit = (\<lambda>o1 l. Inl TaxError),
      calculate_order_line_total = (\<lambda>o1 l. Inl TaxError),
      get_order_line_tax_rate = (\<lambda>o1 v p. Inl TaxError),
      calculate_order_shipping = (\<lambda>o1. Inl TaxError),
      get_order_shipping_tax_rate = (\<lambda>o1 p. Inl TaxError),
      calculate_order_total = (\<lambda>o1 ls. Inr \<lparr>net = 7, gross = 7\<rparr>),
      get_taxes_for_order = (\<lambda>o1. Inr None)\<rparr>"

text \<open>A manager every call of which raises \<open>TaxError\<close>.\<close>

definition raising_manager :: plugins_manager where
  "raising_manager =
     \<lparr>calculate_order_line_unit = (\<lambda>o1 l. Inl TaxError),
      calculate_order_line_total = (\<lambda>o1 l. Inl TaxError),
      get_order_line_tax_rate = (\<lambda>o1 v p. Inl TaxError),
      calculate_order_shipping = (\<lambda>o1. Inl TaxError),
      get_order_shipping_tax_rate = (\<lambda>o1 p. Inl TaxError),
      calculate_order_total = (\<lambda>o1 ls. Inl TaxError),
      get_taxes_for_order = (\<lambda>o1. Inl TaxError)\<rparr>"

text \<open>
  An environment on the tax-app strategy that charges taxes, with no order-level discount
  step and rates stored as fractions of percentages.
\<close>

definition ex_env :: "plugins_manager \<Rightarrow> env" where
  "ex_env m =
     \<lparr>manager = m,
      apply_order_discounts = (\<lambda>o1 ls. (o1, ls)),
      update_order_prices_with_flat_rates = (\<lambda>o1 ls b. (o1, ls)),
      get_tax_calculation_strategy_for_order = (\<lambda>o1. TAX_APP),
      get_charge_taxes_for_order = (\<lambda>o1. True),
      normalize_tax_rate_for_db = (\<lambda>r. r / 100)\<rparr>"

definition ex_tax_line1 :: tax_line_data where
  "ex_tax_line1 =
     \<lparr>tl_id = 1, tl_unit_net_amount = 20, tl_unit_gross_amount = 123 / 5,
      tl_total_net_amount = 100, tl_total_gross_amount = 123, tl_tax_rate = 23\<rparr>"

definition ex_tax_line2 :: tax_line_data where
  "ex_tax_line2 =
     \<lparr>tl_id = 2, tl_unit_net_amount = 15, tl_unit_gross_amount = 369 / 20,
      tl_total_net_amount = 30, tl_total_gross_amount = 369 / 10, tl_tax_rate = 23\<rparr>"

definition ex_tax_data :: "tax_line_data list \<Rightarrow> tax_data" where
  "ex_tax_data tls =
     \<lparr>td_shipping_price_net_amount = 10, td_shipping_price_gross_amount = 123 / 10,
      td_shipping_tax_rate = 23,
      td_subtotal_net_amount = 130, td_subtotal_gross_amount = 1599 / 10,
      td_total_net_amount = 140, td_total_gross_amount = 861 / 5,
      td_lines = tls\<rparr>"

text \<open>The order with the voucher, in a channel the voucher has no listing for.\<close>

definition ex_order_other_channel :: order where
  "ex_order_other_channel = ex_order_new_code\<lparr>channel := ex_channel\<lparr>channel_pk := 2\<rparr>\<rparr>"

text \<open>The record the resolution creates for \<open>ex_order_new_code\<close>.\<close>

definition ex_new_discount :: order_discount where
  "ex_new_discount =
     \<lparr>value_type = FIXED, discount_value = 10, reason = ''Voucher: Spring'',
      discount_voucher = Some 3, discount_type = VOUCHER,
      discount_voucher_code = Some ''NEW''\<rparr>"

text \<open>A tax-exempt order, and what \<open>_calculate_taxes\<close> makes of it and its lines.\<close>

definition ex_exempt_order :: order where
  "ex_exempt_order = ex_order\<lparr>tax_exemption := True\<rparr>"

definition ex_untaxed_order :: order where
  "ex_untaxed_order = ex_order\<lparr>tax_exemption := True, shipping_tax_rate := Some 0\<rparr>"

definition ex_untaxed_lines :: "order_line list" where
  "ex_untaxed_lines = [ex_line1\<lparr>tax_rate := Some 0\<rparr>, ex_line2\<lparr>tax_rate := Some 0\<rparr>]"

text \<open>The order and its lines with the tax app's data for both lines applied.\<close>

definition ex_taxed_line1 :: order_line where
  "ex_taxed_line1 =
     ex_line1\<lparr>unit_price_gross_amount := 123 / 5, total_price_gross_amount := 123,
              tax_rate := Some (23 / 100)\<rparr>"

definition ex_taxed_line2 :: order_line where
  "ex_taxed_line2 =
     ex_line2\<lparr>unit_price_gross_amount := 369 / 20, total_price_gross_amount := 369 / 10,
              tax_rate := Some (23 / 100)\<rparr>"


text \<open>
  The echoing manager with a \<open>calculate_order_total\<close> that answers 7, and the orders
  the runs below pass through: after the preparation, after the plugins, at the end.
\<close>

definition fixed_total_manager :: plugins_manager where
  "fixed_total_manager =
     (echo_manager None)\<lparr>calculate_order_total := (\<lambda>o1 ls. Inr \<lparr>net = 7, gross = 7\<rparr>)\<rparr>"

definition ex_prepared_order :: order where
  "ex_prepared_order = ex_order\<lparr>should_refresh_prices := False, prefetched_discounts := Some []\<rparr>"

definition ex_short_order :: order where
  "ex_short_order =
     ex_prepared_order\<lparr>total_net_amount := 110, total_gross_amount := 1353 / 10,
       shipping_price_gross_amount := 123 / 10, shipping_tax_rate := Some (23 / 100)\<rparr>"

definition ex_short_lines :: "order_line list" where
  "ex_short_lines = [ex_taxed_line1, ex_line2\<lparr>tax_rate := Some 0\<rparr>]"

definition ex_fixed_order :: order where
  "ex_fixed_order =
     ex_prepared_order\<lparr>total_net_amount := 7, total_gross_amount := 7,
       shipping_tax_rate := Some 0\<rparr>"

definition ex_plugin_order :: order where
  "ex_plugin_order = ex_prepared_order\<lparr>shipping_tax_rate := Some 0\<rparr>"

definition ex_final_order :: order where
  "ex_final_order =
     ex_prepared_order\<lparr>total_gross_amount := 861 / 5, shipping_price_gross_amount := 123 / 10,
       shipping_tax_rate := Some (23 / 100)\<rparr>"

text \<open>The order returned when every guarded call of the manager raises.\<close>

definition ex_failed_order :: order where
  "ex_failed_order =
     ex_prepared_order\<lparr>total_net_amount := 7, total_gross_amount := 7,
       undiscounted_total_net_amount := 10, undiscounted_total_gross_amount := 10\<rparr>"

text \<open>
  A checkout with one line, whose prices expired at 100; the clock reads 200 and prices
  live for 3600. One manager answers new prices, the other the prices already stored.
  The gift cards hold 9.
\<close>

definition ex_checkout :: checkout where
  "ex_checkout =
     \<lparr>co_currency = ''USD'', co_total = \<lparr>net = 8, gross = 10\<rparr>,
      co_subtotal = \<lparr>net = 8, gross = 10\<rparr>, co_shipping_price = \<lparr>net = 0, gross = 0\<rparr>,
      price_expiration = 100\<rparr>"

definition ex_checkout_line :: checkout_line where
  "ex_checkout_line =
     \<lparr>cl_id = 1, cl_quantity = 1, cl_unit_price = \<lparr>net = 8, gross = 10\<rparr>,
      cl_total_price = \<lparr>net = 8, gross = 10\<rparr>\<rparr>"

definition ex_checkout_db :: checkout_db where
  "ex_checkout_db = \<lparr>cdb_checkout = ex_checkout, cdb_lines = [ex_checkout_line]\<rparr>"

definition repricing_checkout_manager :: checkout_manager where
  "repricing_checkout_manager =
     \<lparr>calculate_checkout_line_total = (\<lambda>ci ls li a ds. Inr \<lparr>net = 16, gross = 20\<rparr>),
      calculate_checkout_line_unit_price = (\<lambda>t q ci ls li a ds. Inr \<lparr>net = 16, gross = 20\<rparr>),
      calculate_checkout_shipping = (\<lambda>ci ls a ds. Inr \<lparr>net = 0, gross = 0\<rparr>),
      calculate_checkout_subtotal = (\<lambda>ci ls a ds. Inr \<lparr>net = 16, gross = 20\<rparr>),
      calculate_checkout_total = (\<lambda>ci ls a ds. Inr \<lparr>net = 16, gross = 20\<rparr>),
      get_taxes_for_checkout = (\<lambda>c. Inr None)\<rparr>"

definition echo_checkout_manager :: checkout_manager where
  "echo_checkout_manager =
     \<lparr>calculate_checkout_line_total = (\<lambda>ci ls li a ds. Inr (cl_total_price (line li))),
      calculate_checkout_line_unit_price = (\<lambda>t q ci ls li a ds. Inr (cl_unit_price (line li))),
      calculate_checkout_shipping = (\<lambda>ci ls a ds. Inr (co_shipping_price (checkout ci))),
      calculate_checkout_subtotal = (\<lambda>ci ls a ds. Inr (co_subtotal (checkout ci))),
      calculate_checkout_total = (\<lambda>ci ls a ds. Inr (co_total (checkout ci))),
      get_taxes_for_checkout = (\<lambda>c. Inr None)\<rparr>"

definition ex_checkout_env :: "checkout_manager \<Rightarrow> checkout_env" where
  "ex_checkout_env m =
     \<lparr>checkout_manager = m, now_at_gate = 200, now_at_update = 200,
      CHECKOUT_PRICES_TTL = 3600, quantize_price = (\<lambda>p c. p),
      get_total_gift_cards_balance = (\<lambda>c. 9)\<rparr>"

definition ex_repriced_checkout :: checkout where
  "ex_repriced_checkout =
     \<lparr>co_currency = ''USD'', co_total = \<lparr>net = 16, gross = 20\<rparr>,
      co_subtotal = \<lparr>net = 16, gross = 20\<rparr>, co_shipping_price = \<lparr>net = 0, gross = 0\<rparr>,
      price_expiration = 3800\<rparr>"

definition ex_repriced_line :: checkout_line where
  "ex_repriced_line =
     \<lparr>cl_id = 1, cl_quantity = 1, cl_unit_price = \<lparr>net = 16, gross = 20\<rparr>,
      cl_total_price = \<lparr>net = 16, gross = 20\<rparr>\<rparr>"









section \<open>Properties\<close>

text \<open>
  C6: an order whose status is not editable is returned as given, with its lines and the
  database as they were, whatever the staleness flag and \<open>force_update\<close> say.
\<close>

theorem not_editable_is_noop:
  "status o1 \<notin> set ORDER_EDITABLE_STATUS \<Longrightarrow>
     fetch_order_prices_and_update_if_expired ev d o1 lines force_update info
       = Inr (d, o1, lines)"
  by (simp add: fetch_order_prices_and_update_if_expired_def)

theorem not_editable_is_noop_witness:
  "status (ex_order\<lparr>status := FULFILLED\<rparr>) \<notin> set ORDER_EDITABLE_STATUS
   \<and> fetch_order_prices_and_update_if_expired (ex_env failing_manager) ex_db
        (ex_order\<lparr>status := FULFILLED\<rparr>) None True False
       = Inr (ex_db, ex_order\<lparr>status := FULFILLED\<rparr>, None)"
proof -
  have h: "status (ex_order\<lparr>status := FULFILLED\<rparr>) \<notin> set ORDER_EDITABLE_STATUS"
    by (simp add: ORDER_EDITABLE_STATUS_def)
  from not_editable_is_noop [OF h] h show ?thesis by blast
qed

subsection \<open>Voucher discount resolution\<close>

lemma find_None_iff_all: "List.find P xs = None \<longleftrightarrow> (\<forall>x\<in>set xs. \<not> P x)"
  by (induction xs) auto

text \<open>
  C8: when the order's voucher has no channel listing for the order's channel, the
  resolution leaves the discount table (and the rest of the database) as it was: no
  record is created. The function has no failing branch.
\<close>

theorem missing_listing_creates_nothing:
  assumes "voucher o1 = Some v" and "voucher_pk v \<noteq> 0"
    and "\<forall>l\<in>set (channel_listings v). listing_channel l \<noteq> channel_pk (channel o1)"
  shows "fst (update_order_discount_for_voucher d o1) = d"
proof -
  have "first_channel_listing v (channel o1) = None"
    using assms(3) by (simp add: first_channel_listing_def find_None_iff_all)
  with assms(1,2) show ?thesis
    by (simp add: update_order_discount_for_voucher_def Let_def voucher_id_def truthy_id_def)
qed

theorem missing_listing_creates_nothing_witness:
  "voucher ex_order_other_channel = Some ex_voucher \<and> voucher_pk ex_voucher \<noteq> 0
   \<and> list_all (\<lambda>l. listing_channel l \<noteq> channel_pk (channel ex_order_other_channel))
        (channel_listings ex_voucher)
   \<and> fst (update_order_discount_for_voucher ex_db ex_order_other_channel) = ex_db"
proof -
  have a: "voucher ex_order_other_channel = Some ex_voucher"
    by (simp add: ex_order_other_channel_def ex_order_new_code_def)
  have b: "voucher_pk ex_voucher \<noteq> 0" by (simp add: ex_voucher_def)
  have c: "\<forall>l\<in>set (channel_listings ex_voucher).
             listing_channel l \<noteq> channel_pk (channel ex_order_other_channel)"
    by (simp add: ex_voucher_def ex_order_other_channel_def ex_channel_def)
  from missing_listing_creates_nothing [OF a b c] a b c show ?thesis
    by (simp add: list_all_iff)
qed

lemma update_discounts_cases:
  "db_discounts (fst (update_order_discount_for_voucher d o1)) =
     (if \<not> truthy_id (voucher_id o1) then
        filter (\<lambda>x. discount_type x \<noteq> VOUCHER) (db_discounts d)
      else if list_ex (\<lambda>x. discount_voucher_code x = voucher_code o1) (db_discounts d) then
        db_discounts d
      else case voucher o1 of
             None \<Rightarrow> db_discounts d
           | Some v \<Rightarrow>
              (case first_channel_listing v (channel o1) of
                 None \<Rightarrow> db_discounts d
               | Some l \<Rightarrow>
                  db_discounts d @
                    [\<lparr>value_type = discount_value_type v,
                      discount_value = listing_discount_value l,
                      reason = voucher_reason v,
                      discount_voucher = Some (voucher_pk v),
                      discount_type = VOUCHER,
                      discount_voucher_code = voucher_code o1\<rparr>]))"
  by (simp add: update_order_discount_for_voucher_def Let_def split: option.splits)

lemma update_twice:
  "update_order_discount_for_voucher (fst (update_order_discount_for_voucher d o1))
       (snd (update_order_discount_for_voucher d o1))
     = update_order_discount_for_voucher d o1"
  by (auto simp add: update_order_discount_for_voucher_def Let_def voucher_id_def
        truthy_id_def list_ex_iff split: option.splits)

text \<open>
  C2, as the code has it: the resolution is idempotent (a second run on its own result
  changes nothing). For an order with a voucher it deletes nothing. If a record with the
  order's current voucher code exists, or the voucher has no listing for the order's
  channel, the records stay as they were. Otherwise exactly one record is appended: of
  voucher type, with the order's voucher code, the voucher's value type, name and key and
  the listing's value. So after a change of the code the old code's record is kept and
  exactly one record for the new code is created. For an order without a voucher the
  voucher-type records are deleted and the others kept.
\<close>

theorem voucher_resolution_idempotent_append_only:
  "update_order_discount_for_voucher (fst (update_order_discount_for_voucher d o1))
       (snd (update_order_discount_for_voucher d o1))
     = update_order_discount_for_voucher d o1
   \<and> (truthy_id (voucher_id o1)
        \<and> list_ex (\<lambda>x. discount_voucher_code x = voucher_code o1) (db_discounts d)
      \<longrightarrow> db_discounts (fst (update_order_discount_for_voucher d o1)) = db_discounts d)
   \<and> (truthy_id (voucher_id o1)
        \<and> \<not> list_ex (\<lambda>x. discount_voucher_code x = voucher_code o1) (db_discounts d)
        \<and> voucher o1 = Some v \<and> first_channel_listing v (channel o1) = None
      \<longrightarrow> db_discounts (fst (update_order_discount_for_voucher d o1)) = db_discounts d)
   \<and> (truthy_id (voucher_id o1)
        \<and> \<not> list_ex (\<lambda>x. discount_voucher_code x = voucher_code o1) (db_discounts d)
        \<and> voucher o1 = Some v \<and> first_channel_listing v (channel o1) = Some l
      \<longrightarrow> db_discounts (fst (update_order_discount_for_voucher d o1))
            = db_discounts d @
                [\<lparr>value_type = discount_value_type v,
                  discount_value = listing_discount_value l,
                  reason = voucher_reason v,
                  discount_voucher = Some (voucher_pk v),
                  discount_type = VOUCHER,
                  discount_voucher_code = voucher_code o1\<rparr>])
   \<and> (\<not> truthy_id (voucher_id o1) \<longrightarrow>
        db_discounts (fst (update_order_discount_for_voucher d o1))
          = filter (\<lambda>x. discount_type x \<noteq> VOUCHER) (db_discounts d))"
proof (intro conjI impI)
  show "update_order_discount_for_voucher (fst (update_order_discount_for_voucher d o1))
       (snd (update_order_discount_for_voucher d o1))
     = update_order_discount_for_voucher d o1"
    by (rule update_twice)
next
  assume "truthy_id (voucher_id o1)
        \<and> list_ex (\<lambda>x. discount_voucher_code x = voucher_code o1) (db_discounts d)"
  then show "db_discounts (fst (update_order_discount_for_voucher d o1)) = db_discounts d"
    by (simp add: update_discounts_cases)
next
  assume "truthy_id (voucher_id o1)
        \<and> \<not> list_ex (\<lambda>x. discount_voucher_code x = voucher_code o1) (db_discounts d)
        \<and> voucher o1 = Some v \<and> first_channel_listing v (channel o1) = None"
  then show "db_discounts (fst (update_order_discount_for_voucher d o1)) = db_discounts d"
    by (simp add: update_discounts_cases)
next
  assume "truthy_id (voucher_id o1)
        \<and> \<not> list_ex (\<lambda>x. discount_voucher_code x = voucher_code o1) (db_discounts d)
        \<and> voucher o1 = Some v \<and> first_channel_listing v (channel o1) = Some l"
  then show "db_discounts (fst (update_order_discount_for_voucher d o1))
            = db_discounts d @
                [\<lparr>value_type = discount_value_type v,
                  discount_value = listing_discount_value l,
                  reason = voucher_reason v,
                  discount_voucher = Some (voucher_pk v),
                  discount_type = VOUCHER,
                  discount_voucher_code = voucher_code o1\<rparr>]"
    by (simp add: update_discounts_cases)
next
  assume "\<not> truthy_id (voucher_id o1)"
  then show "db_discounts (fst (update_order_discount_for_voucher d o1))
          = filter (\<lambda>x. discount_type x \<noteq> VOUCHER) (db_discounts d)"
    by (simp add: update_discounts_cases)
qed

lemma ex_swap:
  "db_discounts (fst (update_order_discount_for_voucher
          (ex_db\<lparr>db_discounts := [ex_old_discount]\<rparr>) ex_order_new_code))
     = [ex_old_discount, ex_new_discount]"
  by (simp add: update_discounts_cases ex_db_def ex_order_new_code_def ex_order_def
        ex_old_discount_def ex_new_discount_def ex_voucher_def ex_channel_def
        voucher_id_def truthy_id_def first_channel_listing_def voucher_reason_def)

text \<open>
  The order held a voucher record for the code \<open>OLD\<close> and now carries the code \<open>NEW\<close>:
  the run keeps the old record and adds the new one, two voucher-type records.
\<close>

theorem voucher_code_change_keeps_old_record:
  "db_discounts (fst (update_order_discount_for_voucher
          (ex_db\<lparr>db_discounts := [ex_old_discount]\<rparr>) ex_order_new_code))
     = [ex_old_discount, ex_new_discount]
   \<and> length (filter (\<lambda>x. discount_type x = VOUCHER)
        (db_discounts (fst (update_order_discount_for_voucher
          (ex_db\<lparr>db_discounts := [ex_old_discount]\<rparr>) ex_order_new_code)))) = 2"
  by (simp add: ex_swap) (simp add: ex_old_discount_def ex_new_discount_def)

theorem voucher_resolution_idempotent_append_only_witness:
  "truthy_id (voucher_id ex_order_new_code)
   \<and> voucher ex_order_new_code = Some ex_voucher
   \<and> first_channel_listing ex_voucher (channel ex_order_new_code)
       = Some \<lparr>listing_channel = 1, listing_discount_value = 10\<rparr>
   \<and> \<not> list_ex (\<lambda>x. discount_voucher_code x = voucher_code ex_order_new_code)
         [ex_old_discount]
   \<and> db_discounts (fst (update_order_discount_for_voucher
         (ex_db\<lparr>db_discounts := [ex_old_discount]\<rparr>) ex_order_new_code))
       = [ex_old_discount, ex_new_discount]
   \<and> list_ex (\<lambda>x. discount_voucher_code x = voucher_code ex_order_new_code)
         [ex_old_discount, ex_new_discount]
   \<and> db_discounts (fst (update_order_discount_for_voucher
         (ex_db\<lparr>db_discounts := [ex_old_discount, ex_new_discount]\<rparr>) ex_order_new_code))
       = [ex_old_discount, ex_new_discount]
   \<and> truthy_id (voucher_id ex_order_other_channel)
   \<and> voucher ex_order_other_channel = Some ex_voucher
   \<and> first_channel_listing ex_voucher (channel ex_order_other_channel) = None
   \<and> db_discounts (fst (update_order_discount_for_voucher
         (ex_db\<lparr>db_discounts := [ex_old_discount]\<rparr>) ex_order_other_channel))
       = [ex_old_discount]
   \<and> \<not> truthy_id (voucher_id ex_order)
   \<and> db_discounts (fst (update_order_discount_for_voucher
         (ex_db\<lparr>db_discounts := [ex_old_discount]\<rparr>) ex_order))
       = []
   \<and> update_order_discount_for_voucher
        (fst (update_order_discount_for_voucher (ex_db\<lparr>db_discounts := [ex_old_discount]\<rparr>)
               ex_order_new_code))
        (snd (update_order_discount_for_voucher (ex_db\<lparr>db_discounts := [ex_old_discount]\<rparr>)
               ex_order_new_code))
       = update_order_discount_for_voucher (ex_db\<lparr>db_discounts := [ex_old_discount]\<rparr>)
           ex_order_new_code"
proof -
  let ?d = "ex_db\<lparr>db_discounts := [ex_old_discount]\<rparr>"
  let ?d2 = "ex_db\<lparr>db_discounts := [ex_old_discount, ex_new_discount]\<rparr>"
  let ?l = "\<lparr>listing_channel = 1, listing_discount_value = 10\<rparr> :: voucher_channel_listing"
  have t: "truthy_id (voucher_id ex_order_new_code)"
    and v: "voucher ex_order_new_code = Some ex_voucher"
    and l: "first_channel_listing ex_voucher (channel ex_order_new_code) = Some ?l"
    and n: "\<not> list_ex (\<lambda>x. discount_voucher_code x = voucher_code ex_order_new_code)
              (db_discounts ?d)"
    and e: "list_ex (\<lambda>x. discount_voucher_code x = voucher_code ex_order_new_code)
              (db_discounts ?d2)"
    by (simp_all add: ex_order_new_code_def ex_order_def voucher_id_def truthy_id_def
          ex_voucher_def first_channel_listing_def ex_channel_def ex_old_discount_def
          ex_new_discount_def)
  have t': "truthy_id (voucher_id ex_order_other_channel)"
    and v': "voucher ex_order_other_channel = Some ex_voucher"
    and l': "first_channel_listing ex_voucher (channel ex_order_other_channel) = None"
    and n': "\<not> list_ex (\<lambda>x. discount_voucher_code x = voucher_code ex_order_other_channel)
              (db_discounts ?d)"
    by (simp_all add: ex_order_other_channel_def ex_order_new_code_def ex_order_def
          voucher_id_def truthy_id_def ex_voucher_def first_channel_listing_def
          ex_channel_def ex_old_discount_def)
  have f: "\<not> truthy_id (voucher_id ex_order)"
    by (simp add: ex_order_def voucher_id_def truthy_id_def)
  have r: "\<lparr>value_type = discount_value_type ex_voucher,
            discount_value = listing_discount_value ?l,
            reason = voucher_reason ex_voucher,
            discount_voucher = Some (voucher_pk ex_voucher),
            discount_type = VOUCHER,
            discount_voucher_code = voucher_code ex_order_new_code\<rparr> = ex_new_discount"
    by (simp add: ex_new_discount_def ex_voucher_def voucher_reason_def
          ex_order_new_code_def)
  note w = voucher_resolution_idempotent_append_only
  from w [of ?d ex_order_new_code ex_voucher ?l] t v l n
  have "db_discounts (fst (update_order_discount_for_voucher ?d ex_order_new_code))
          = db_discounts ?d @
              [\<lparr>value_type = discount_value_type ex_voucher,
                discount_value = listing_discount_value ?l,
                reason = voucher_reason ex_voucher,
                discount_voucher = Some (voucher_pk ex_voucher),
                discount_type = VOUCHER,
                discount_voucher_code = voucher_code ex_order_new_code\<rparr>]"
    by blast
  then have a: "db_discounts (fst (update_order_discount_for_voucher ?d ex_order_new_code))
             = [ex_old_discount, ex_new_discount]"
    by (simp only: r) simp
  from w [of ?d ex_order_new_code]
  have i: "update_order_discount_for_voucher
        (fst (update_order_discount_for_voucher ?d ex_order_new_code))
        (snd (update_order_discount_for_voucher ?d ex_order_new_code))
       = update_order_discount_for_voucher ?d ex_order_new_code"
    by blast
  from w [of ?d2 ex_order_new_code] t e
  have "db_discounts (fst (update_order_discount_for_voucher ?d2 ex_order_new_code))
          = db_discounts ?d2"
    by blast
  then have b: "db_discounts (fst (update_order_discount_for_voucher ?d2 ex_order_new_code))
             = [ex_old_discount, ex_new_discount]"
    by simp
  from w [of ?d ex_order_other_channel ex_voucher] t' v' l' n'
  have "db_discounts (fst (update_order_discount_for_voucher ?d ex_order_other_channel))
          = db_discounts ?d"
    by blast
  then have c: "db_discounts (fst (update_order_discount_for_voucher ?d ex_order_other_channel))
             = [ex_old_discount]"
    by simp
  from w [of ?d ex_order] f
  have "db_discounts (fst (update_order_discount_for_voucher ?d ex_order))
          = filter (\<lambda>x. discount_type x \<noteq> VOUCHER) (db_discounts ?d)"
    by blast
  then have g: "db_discounts (fst (update_order_discount_for_voucher ?d ex_order)) = []"
    by (simp add: ex_old_discount_def)
  have n2: "\<not> list_ex (\<lambda>x. discount_voucher_code x = voucher_code ex_order_new_code)
              [ex_old_discount]"
    and e2: "list_ex (\<lambda>x. discount_voucher_code x = voucher_code ex_order_new_code)
              [ex_old_discount, ex_new_discount]"
    using n e by simp_all
  show ?thesis
    by (intro conjI t v l n2 a e2 b t' v' l' c f g i)
qed

subsection \<open>The decimal context\<close>


lemma round_half_even_of_int [simp]: "round_half_even (of_int n) = n"
  by (simp add: round_half_even_def)

lemma adjusted_bounds:
  assumes "x \<noteq> 0"
  shows "10 powi adjusted x \<le> \<bar>x\<bar>" and "\<bar>x\<bar> < 10 powi (adjusted x + 1)"
proof -
  obtain a b where q: "quotient_of \<bar>x\<bar> = (a, b)" by (cases "quotient_of \<bar>x\<bar>") auto
  then have b: "0 < b" by (rule quotient_of_denom_pos)
  from q have x: "\<bar>x\<bar> = of_int a / of_int b" by (rule quotient_of_div)
  have "0 < \<bar>x\<bar>" using assms by simp
  with x b have a: "0 < a" by (simp add: zero_less_divide_iff)
  define fa where "fa = floorlog 10 (nat a)"
  define fb where "fb = floorlog 10 (nat b)"
  define k where "k = int fa - int fb"
  from floorlog_bounds [of "nat a" 10] a
  have na: "10 ^ (fa - 1) \<le> nat a" "nat a < 10 ^ fa" by (simp_all add: fa_def)
  from floorlog_bounds [of "nat b" 10] b
  have nb: "10 ^ (fb - 1) \<le> nat b" "nat b < 10 ^ fb" by (simp_all add: fb_def)
  from a have fa: "1 \<le> fa" by (simp add: fa_def floorlog_def)
  from b have fb: "1 \<le> fb" by (simp add: fb_def floorlog_def)
  have ra1: "(10::rat) ^ (fa - 1) \<le> of_int a"
  proof -
    from na(1) have "int (10 ^ (fa - 1)) \<le> int (nat a)" by (simp only: of_nat_le_iff)
    with a have "(10::int) ^ (fa - 1) \<le> a" by simp
    then have "rat_of_int (10 ^ (fa - 1)) \<le> of_int a" by (simp only: of_int_le_iff)
    then show ?thesis by simp
  qed
  have ra2: "of_int a < (10::rat) ^ fa"
  proof -
    from na(2) have "int (nat a) < int (10 ^ fa)" by (simp only: of_nat_less_iff)
    with a have "a < (10::int) ^ fa" by simp
    then have "rat_of_int a < of_int (10 ^ fa)" by (simp only: of_int_less_iff)
    then show ?thesis by simp
  qed
  have rb1: "(10::rat) ^ (fb - 1) \<le> of_int b"
  proof -
    from nb(1) have "int (10 ^ (fb - 1)) \<le> int (nat b)" by (simp only: of_nat_le_iff)
    with b have "(10::int) ^ (fb - 1) \<le> b" by simp
    then have "rat_of_int (10 ^ (fb - 1)) \<le> of_int b" by (simp only: of_int_le_iff)
    then show ?thesis by simp
  qed
  have rb2: "of_int b < (10::rat) ^ fb"
  proof -
    from nb(2) have "int (nat b) < int (10 ^ fb)" by (simp only: of_nat_less_iff)
    with b have "b < (10::int) ^ fb" by simp
    then have "rat_of_int b < of_int (10 ^ fb)" by (simp only: of_int_less_iff)
    then show ?thesis by simp
  qed
  have k1: "(10::rat) powi (k - 1) = 10 ^ (fa - 1) / 10 ^ fb"
  proof -
    from fa have "k - 1 = int (fa - 1) - int fb" by (simp add: k_def)
    then show ?thesis by (simp add: power_int_diff)
  qed
  have k2: "(10::rat) powi (k + 1) = 10 ^ fa / 10 ^ (fb - 1)"
  proof -
    from fb have "k + 1 = int fa - int (fb - 1)" by (simp add: k_def)
    then show ?thesis by (simp add: power_int_diff)
  qed
  have lo: "(10::rat) powi (k - 1) \<le> \<bar>x\<bar>"
    unfolding k1 x using ra1 rb2 a b by (intro frac_le) simp_all
  have hi: "\<bar>x\<bar> < (10::rat) powi (k + 1)"
    unfolding k2 x using ra2 rb1 a by (intro frac_less) simp_all
  have adj: "adjusted x = (if 10 powi k \<le> \<bar>x\<bar> then k else k - 1)"
    by (simp add: adjusted_def q Let_def k_def fa_def fb_def)
  show "10 powi adjusted x \<le> \<bar>x\<bar>" using lo by (simp add: adj)
  show "\<bar>x\<bar> < 10 powi (adjusted x + 1)" using hi by (simp add: adj)
qed


lemma powi10_less_imp: "(10::rat) powi i < 10 powi j \<Longrightarrow> i < j"
proof (rule ccontr)
  assume l: "(10::rat) powi i < 10 powi j" and "\<not> i < j"
  then have "j \<le> i" by simp
  then have "(10::rat) powi j \<le> 10 powi i" by (rule power_int_increasing) simp
  with l show False by simp
qed



lemma decimal_round_exact:
  assumes "x = of_int n / 10 ^ k" and "\<bar>n\<bar> < 10 ^ 28"
  shows "decimal_round x = x"
proof (cases "x = 0")
  case True
  then show ?thesis by (simp add: decimal_round_def)
next
  case False
  define s where "s = 27 - adjusted x"
  have "\<bar>x\<bar> = of_int \<bar>n\<bar> / 10 ^ k" by (simp add: assms(1))
  also have "\<dots> < 10 ^ 28 / 10 ^ k"
  proof -
    from assms(2) have "rat_of_int \<bar>n\<bar> < of_int (10 ^ 28)" by (simp only: of_int_less_iff)
    then show ?thesis by (simp add: divide_strict_right_mono)
  qed
  also have "\<dots> = (10::rat) powi (28 - int k)"
    by (simp add: power_int_diff)
  finally have "\<bar>x\<bar> < 10 powi (28 - int k)" .
  with adjusted_bounds(1) [OF False] have "(10::rat) powi adjusted x < 10 powi (28 - int k)"
    by (rule le_less_trans)
  then have "adjusted x < 28 - int k" by (rule powi10_less_imp)
  then have sk: "int k \<le> s" by (simp add: s_def)
  then obtain j where j: "s = int k + int j" by (metis zle_iff_zadd)
  have "x * 10 powi s = of_int n / 10 ^ k * (10 ^ k * 10 ^ j)"
    by (simp add: assms(1) j power_int_add)
  also have "\<dots> = of_int (n * 10 ^ j)" by simp
  finally have i: "x * 10 powi s = of_int (n * 10 ^ j)" .
  have "decimal_round x = of_int (round_half_even (x * 10 powi s)) * 10 powi (- s)"
    using False by (simp add: decimal_round_def Let_def s_def)
  also have "\<dots> = x * 10 powi s * 10 powi (- s)"
    by (simp only: i round_half_even_of_int)
  also have "\<dots> = x" by (simp add: power_int_minus)
  finally show ?thesis .
qed

lemma decimal_round_examples:
  "decimal_round 20 = 20" "decimal_round (123 / 5) = 123 / 5"
  "decimal_round 15 = 15" "decimal_round (369 / 20) = 369 / 20"
proof -
  show "decimal_round 20 = 20" by (rule decimal_round_exact [of _ 20 0]) simp_all
  show "decimal_round (123 / 5) = 123 / 5" by (rule decimal_round_exact [of _ 246 1]) simp_all
  show "decimal_round 15 = 15" by (rule decimal_round_exact [of _ 15 0]) simp_all
  show "decimal_round (369 / 20) = 369 / 20"
    by (rule decimal_round_exact [of _ 1845 2]) simp_all
qed


subsection \<open>Removing the tax\<close>

lemmas ex_defs = ex_env_def echo_manager_def ex_tax_data_def ex_tax_line1_def ex_tax_line2_def
  ex_order_def ex_line1_def ex_line2_def ex_channel_def failing_manager_def
  raising_manager_def ex_db_def

lemmas calc_defs = calculate_taxes_def calculate_and_add_tax_def
  apply_tax_data_from_plugins_def apply_line_from_plugins_def apply_shipping_from_plugins_def
  apply_tax_data_def remove_tax_def remove_tax_line_def Let_def taxed_money_truediv_def
  taxed_money_add_def zero_taxed_money_def set_total_def set_shipping_price_def
  set_undiscounted_total_def set_unit_price_def set_total_price_def
  set_undiscounted_unit_price_def set_undiscounted_total_price_def unit_price_def
  total_price_def undiscounted_unit_price_def undiscounted_total_price_def shipping_price_def
  lines_subtotal_def except_TaxError_def decimal_round_examples

text \<open>
  C5: when the channel's prices are entered with tax and taxes are not charged (charging
  is disabled or the order is exempt), a \<open>_calculate_taxes\<close> that returns leaves every
  gross amount of the order and of each line equal to its net amount, and the shipping
  tax rate and each line's tax rate exactly 0.
\<close>

theorem tax_stripped_when_not_chargeable:
  assumes "prices_entered_with_tax (tax_configuration (channel o1))"
    and "\<not> (get_charge_taxes_for_order ev o1 \<and> \<not> tax_exemption o1)"
    and "calculate_taxes ev o1 ls = Inr (o2, ls2)"
  shows "total_gross_amount o2 = total_net_amount o2
     \<and> undiscounted_total_gross_amount o2 = undiscounted_total_net_amount o2
     \<and> shipping_price_gross_amount o2 = shipping_price_net_amount o2
     \<and> shipping_tax_rate o2 = Some 0
     \<and> (\<forall>l\<in>set ls2.
           unit_price_gross_amount l = unit_price_net_amount l
           \<and> total_price_gross_amount l = total_price_net_amount l
           \<and> undiscounted_unit_price_gross_amount l = undiscounted_unit_price_net_amount l
           \<and> undiscounted_total_price_gross_amount l = undiscounted_total_price_net_amount l
           \<and> tax_rate l = Some 0)"
proof -
  from assms obtain o3 ls3 where "remove_tax o3 ls3 = (o2, ls2)"
    by (auto simp add: calculate_taxes_def Let_def split: sum.splits prod.splits)
  then show ?thesis
    by (auto simp add: remove_tax_def remove_tax_line_def)
qed

lemma ex_exempt_run:
  "calculate_taxes (ex_env (echo_manager (Some (ex_tax_data [ex_tax_line1, ex_tax_line2]))))
        ex_exempt_order [ex_line1, ex_line2] = Inr (ex_untaxed_order, ex_untaxed_lines)"
  by (simp add: ex_defs calc_defs ex_exempt_order_def ex_untaxed_order_def
        ex_untaxed_lines_def)

theorem tax_stripped_when_not_chargeable_witness:
  "prices_entered_with_tax (tax_configuration (channel ex_exempt_order))
   \<and> tax_exemption ex_exempt_order
   \<and> calculate_taxes (ex_env (echo_manager (Some (ex_tax_data [ex_tax_line1, ex_tax_line2]))))
        ex_exempt_order [ex_line1, ex_line2] = Inr (ex_untaxed_order, ex_untaxed_lines)
   \<and> total_gross_amount ex_untaxed_order = total_net_amount ex_untaxed_order
   \<and> shipping_tax_rate ex_untaxed_order = Some 0
   \<and> list_all (\<lambda>l. total_price_gross_amount l = total_price_net_amount l \<and> tax_rate l = Some 0)
        ex_untaxed_lines"
proof -
  have a: "prices_entered_with_tax (tax_configuration (channel ex_exempt_order))"
    by (simp add: ex_exempt_order_def ex_order_def ex_channel_def)
  have b: "tax_exemption ex_exempt_order" by (simp add: ex_exempt_order_def)
  then have b': "\<not> (get_charge_taxes_for_order
                 (ex_env (echo_manager (Some (ex_tax_data [ex_tax_line1, ex_tax_line2]))))
                 ex_exempt_order \<and> \<not> tax_exemption ex_exempt_order)" by simp
  from tax_stripped_when_not_chargeable [OF a b' ex_exempt_run] a b ex_exempt_run
  show ?thesis by (simp add: list_all_iff)
qed

subsection \<open>Applying the tax app's data\<close>

lemma apply_tax_lines_length:
  "apply_tax_lines nrm ls ts sub = Inr (ls', sub') \<Longrightarrow> length ls' = length ls"
  by (induction nrm ls ts sub arbitrary: ls' sub' rule: apply_tax_lines.induct)
     (auto simp add: Let_def split: sum.splits prod.splits)













subsection \<open>The total after a recalculation\<close>










lemmas fetch_defs = fetch_order_prices_and_update_if_expired_def prepare_prices_def
  update_order_discount_for_voucher_def voucher_id_def truthy_id_def ORDER_EDITABLE_STATUS_def
  returned_def

lemmas ex_order_defs = ex_prepared_order_def ex_short_order_def ex_short_lines_def
  ex_fixed_order_def ex_plugin_order_def ex_final_order_def ex_taxed_line1_def
  ex_taxed_line2_def ex_untaxed_lines_def fixed_total_manager_def






lemma ex_full_run:
  "fetch_order_prices_and_update_if_expired
      (ex_env (echo_manager (Some (ex_tax_data [ex_tax_line1, ex_tax_line2]))))
      ex_db ex_order None False True
     = Inr (persist_prices ex_db ex_final_order [ex_taxed_line1, ex_taxed_line2] True,
            ex_final_order, Some [ex_taxed_line1, ex_taxed_line2])"
  by (simp add: fetch_defs ex_defs calc_defs ex_order_defs)






subsection \<open>Tax errors\<close>

lemma apply_lines_from_plugins_unit_raises:
  assumes "\<forall>o2 l. calculate_order_line_unit m o2 l = Inl TaxError"
  shows "apply_lines_from_plugins m o1 ls sub = Inr (ls, sub)"
proof (induction ls)
  case Nil
  show ?case by simp
next
  case (Cons l ls)
  have "apply_line_from_plugins m o1 l sub = Inr (l, sub)"
    using assms by (simp add: apply_line_from_plugins_def except_TaxError_def split: option.splits)
  with Cons show ?case by simp
qed

lemma apply_shipping_from_plugins_raises:
  assumes "\<forall>o2. calculate_order_shipping m o2 = Inl TaxError"
  shows "apply_shipping_from_plugins m o1 = Inr o1"
  using assms by (simp add: apply_shipping_from_plugins_def except_TaxError_def)

lemma plugins_all_raise:
  assumes u: "\<forall>o2 l. calculate_order_line_unit m o2 l = Inl TaxError"
    and s: "\<forall>o2. calculate_order_shipping m o2 = Inl TaxError"
    and t: "\<forall>o2 ls2. \<not> isl (calculate_order_total m o2 ls2)"
  shows "apply_tax_data_from_plugins m o1 ls =
     Inr (set_total
            (projr (calculate_order_total m
               (set_undiscounted_total
                  \<lparr>net = base_shipping_price_amount o1,
                   gross = base_shipping_price_amount o1\<rparr> o1) ls))
            (set_undiscounted_total
               \<lparr>net = base_shipping_price_amount o1,
                gross = base_shipping_price_amount o1\<rparr> o1), ls)"
proof -
  let ?o3 = "set_undiscounted_total
               \<lparr>net = base_shipping_price_amount o1,
                gross = base_shipping_price_amount o1\<rparr> o1"
  from t have "\<not> isl (calculate_order_total m ?o3 ls)" by blast
  then obtain tt where tt: "calculate_order_total m ?o3 ls = Inr tt"
    by (cases "calculate_order_total m ?o3 ls") auto
  have z: "taxed_money_add (zero_taxed_money (currency o1))
             \<lparr>net = base_shipping_price_amount o1, gross = base_shipping_price_amount o1\<rparr>
           = \<lparr>net = base_shipping_price_amount o1, gross = base_shipping_price_amount o1\<rparr>"
    by (simp add: taxed_money_add_def zero_taxed_money_def)
  show ?thesis
    by (simp add: apply_tax_data_from_plugins_def apply_lines_from_plugins_unit_raises [OF u]
          apply_shipping_from_plugins_raises [OF s] z tt)
qed

lemma calculate_taxes_returns:
  assumes u: "\<forall>o2 l. calculate_order_line_unit (manager ev) o2 l = Inl TaxError"
    and s: "\<forall>o2. calculate_order_shipping (manager ev) o2 = Inl TaxError"
    and t: "\<forall>o2 ls2. \<not> isl (calculate_order_total (manager ev) o2 ls2)"
    and n: "\<forall>o2. get_taxes_for_order (manager ev) o2 = Inr None"
  shows "\<not> isl (calculate_and_add_tax ev st o1 ls b)" "\<not> isl (calculate_taxes ev o1 ls)"
proof -
  show a: "\<not> isl (calculate_and_add_tax ev st o1 ls b)" for st b
    by (simp add: calculate_and_add_tax_def plugins_all_raise [OF u s t] n apply_tax_data_def)
  show "\<not> isl (calculate_taxes ev o1 ls)"
    using a [of "get_tax_calculation_strategy_for_order ev o1"
               "prices_entered_with_tax (tax_configuration (channel o1))"]
    by (auto simp add: calculate_taxes_def Let_def split: sum.splits prod.splits)
qed

text \<open>
  C4, as the code has it: when the five manager calls inside the \<open>try\<close> blocks (line
  unit, line total, line tax rate, shipping, shipping tax rate) raise \<open>TaxError\<close> on
  every call, \<open>calculate_order_total\<close> returns and there is no tax data, the
  recalculation returns without an exception; the plugin step leaves every line and the
  order's shipping price and shipping tax rate as they were, and assigns the order's total
  (the manager's answer) and undiscounted total after the \<open>try\<close> blocks. On the tax-app
  strategy with taxes charged, the call returns the lines as the discount step left them.
\<close>

theorem guarded_tax_errors_are_swallowed:
  assumes "\<forall>o2 l. calculate_order_line_unit (manager ev) o2 l = Inl TaxError"
    and "\<forall>o2 l. calculate_order_line_total (manager ev) o2 l = Inl TaxError"
    and "\<forall>o2 v p. get_order_line_tax_rate (manager ev) o2 v p = Inl TaxError"
    and "\<forall>o2. calculate_order_shipping (manager ev) o2 = Inl TaxError"
    and "\<forall>o2 p. get_order_shipping_tax_rate (manager ev) o2 p = Inl TaxError"
    and "\<forall>o2 ls2. \<not> isl (calculate_order_total (manager ev) o2 ls2)"
    and "\<forall>o2. get_taxes_for_order (manager ev) o2 = Inr None"
  shows "\<not> isl (fetch_order_prices_and_update_if_expired ev d o1 lines force_update info)
     \<and> calculate_and_add_tax ev TAX_APP o4 ls4 pewt =
         Inr (set_total
                (projr (calculate_order_total (manager ev)
                   (set_undiscounted_total
                      \<lparr>net = base_shipping_price_amount o4,
                       gross = base_shipping_price_amount o4\<rparr> o4) ls4))
                (set_undiscounted_total
                   \<lparr>net = base_shipping_price_amount o4,
                    gross = base_shipping_price_amount o4\<rparr> o4), ls4)
     \<and> (status o1 \<in> set ORDER_EDITABLE_STATUS
          \<and> (force_update \<or> should_refresh_prices o1)
          \<and> prepare_prices ev d o1 lines = (d1, o4, ls4)
          \<and> get_tax_calculation_strategy_for_order ev o4 = TAX_APP
          \<and> get_charge_taxes_for_order ev o4 \<and> \<not> tax_exemption o4
        \<longrightarrow> returned (fetch_order_prices_and_update_if_expired ev d o1 lines force_update info)
              = Some (set_total
                        (projr (calculate_order_total (manager ev)
                           (set_undiscounted_total
                              \<lparr>net = base_shipping_price_amount o4,
                               gross = base_shipping_price_amount o4\<rparr> o4) ls4))
                        (set_undiscounted_total
                           \<lparr>net = base_shipping_price_amount o4,
                            gross = base_shipping_price_amount o4\<rparr> o4), Some ls4))"
proof (intro conjI impI)
  obtain d1 o5 ls5 where p: "prepare_prices ev d o1 lines = (d1, o5, ls5)"
    by (cases "prepare_prices ev d o1 lines") auto
  from calculate_taxes_returns(2) [OF assms(1,4,6,7), of o5 ls5]
  obtain r where "calculate_taxes ev o5 ls5 = Inr r"
    by (cases "calculate_taxes ev o5 ls5") auto
  with p show "\<not> isl (fetch_order_prices_and_update_if_expired ev d o1 lines force_update info)"
    by (simp add: fetch_order_prices_and_update_if_expired_def split: prod.splits)
next
  show "calculate_and_add_tax ev TAX_APP o4 ls4 pewt =
         Inr (set_total
                (projr (calculate_order_total (manager ev)
                   (set_undiscounted_total
                      \<lparr>net = base_shipping_price_amount o4,
                       gross = base_shipping_price_amount o4\<rparr> o4) ls4))
                (set_undiscounted_total
                   \<lparr>net = base_shipping_price_amount o4,
                    gross = base_shipping_price_amount o4\<rparr> o4), ls4)"
    by (simp add: calculate_and_add_tax_def plugins_all_raise [OF assms(1,4,6)] assms(7)
          apply_tax_data_def)
  then have c: "calculate_and_add_tax ev TAX_APP o4 ls4 b =
         Inr (set_total
                (projr (calculate_order_total (manager ev)
                   (set_undiscounted_total
                      \<lparr>net = base_shipping_price_amount o4,
                       gross = base_shipping_price_amount o4\<rparr> o4) ls4))
                (set_undiscounted_total
                   \<lparr>net = base_shipping_price_amount o4,
                    gross = base_shipping_price_amount o4\<rparr> o4), ls4)" for b
    by (simp add: calculate_and_add_tax_def)
  assume h: "status o1 \<in> set ORDER_EDITABLE_STATUS
          \<and> (force_update \<or> should_refresh_prices o1)
          \<and> prepare_prices ev d o1 lines = (d1, o4, ls4)
          \<and> get_tax_calculation_strategy_for_order ev o4 = TAX_APP
          \<and> get_charge_taxes_for_order ev o4 \<and> \<not> tax_exemption o4"
  then have "calculate_taxes ev o4 ls4 =
         Inr (set_total
                (projr (calculate_order_total (manager ev)
                   (set_undiscounted_total
                      \<lparr>net = base_shipping_price_amount o4,
                       gross = base_shipping_price_amount o4\<rparr> o4) ls4))
                (set_undiscounted_total
                   \<lparr>net = base_shipping_price_amount o4,
                    gross = base_shipping_price_amount o4\<rparr> o4), ls4)"
    by (simp add: calculate_taxes_def Let_def c)
  with h show "returned (fetch_order_prices_and_update_if_expired ev d o1 lines force_update info)
              = Some (set_total
                        (projr (calculate_order_total (manager ev)
                           (set_undiscounted_total
                              \<lparr>net = base_shipping_price_amount o4,
                               gross = base_shipping_price_amount o4\<rparr> o4) ls4))
                        (set_undiscounted_total
                           \<lparr>net = base_shipping_price_amount o4,
                            gross = base_shipping_price_amount o4\<rparr> o4), Some ls4)"
    by (auto simp add: fetch_order_prices_and_update_if_expired_def returned_def)
qed

lemma ex_failing_run:
  "returned (fetch_order_prices_and_update_if_expired (ex_env failing_manager) ex_db ex_order
              None False False)
     = Some (ex_failed_order, Some [ex_line1, ex_line2])"
  by (simp add: fetch_defs ex_defs calc_defs ex_order_defs ex_failed_order_def)

lemma ex_raising_run:
  "fetch_order_prices_and_update_if_expired (ex_env raising_manager) ex_db ex_order
      None False False = Inl TaxError"
  by (simp add: fetch_defs ex_defs calc_defs ex_order_defs)

text \<open>
  A manager every call of which raises \<open>TaxError\<close>: the exception of
  \<open>calculate_order_total\<close> leaves the function. A manager whose guarded calls raise:
  the call returns, and the order's undiscounted total went from 140 to 10 and its total
  from 140 to 7.
\<close>

theorem tax_errors_propagate_or_reset_totals:
  "fetch_order_prices_and_update_if_expired (ex_env raising_manager) ex_db ex_order
      None False False = Inl TaxError
   \<and> returned (fetch_order_prices_and_update_if_expired (ex_env failing_manager) ex_db ex_order
              None False False)
       = Some (ex_failed_order, Some [ex_line1, ex_line2])
   \<and> undiscounted_total ex_order = \<lparr>net = 140, gross = 140\<rparr>
   \<and> undiscounted_total ex_failed_order = \<lparr>net = 10, gross = 10\<rparr>
   \<and> total ex_order = \<lparr>net = 140, gross = 140\<rparr>
   \<and> total ex_failed_order = \<lparr>net = 7, gross = 7\<rparr>"
  by (simp add: ex_failing_run ex_raising_run)
     (simp add: undiscounted_total_def total_def ex_failed_order_def ex_prepared_order_def
        ex_order_def)

lemma ex_failing_prepare:
  "prepare_prices (ex_env failing_manager) ex_db ex_order None
     = (ex_db, ex_prepared_order, [ex_line1, ex_line2])"
  by (simp add: fetch_defs ex_defs ex_order_defs)

theorem guarded_tax_errors_are_swallowed_witness:
  "status ex_order \<in> set ORDER_EDITABLE_STATUS
   \<and> should_refresh_prices ex_order
   \<and> calculate_order_line_unit failing_manager ex_prepared_order ex_line1 = Inl TaxError
   \<and> calculate_order_shipping failing_manager ex_prepared_order = Inl TaxError
   \<and> \<not> isl (fetch_order_prices_and_update_if_expired (ex_env failing_manager) ex_db ex_order
              None False False)
   \<and> returned (fetch_order_prices_and_update_if_expired (ex_env failing_manager) ex_db ex_order
              None False False)
       = Some (ex_failed_order, Some [ex_line1, ex_line2])"
proof -
  let ?ev = "ex_env failing_manager"
  have g1: "\<forall>o2 l. calculate_order_line_unit (manager ?ev) o2 l = Inl TaxError"
    and g2: "\<forall>o2 l. calculate_order_line_total (manager ?ev) o2 l = Inl TaxError"
    and g3: "\<forall>o2 v p. get_order_line_tax_rate (manager ?ev) o2 v p = Inl TaxError"
    and g4: "\<forall>o2. calculate_order_shipping (manager ?ev) o2 = Inl TaxError"
    and g5: "\<forall>o2 p. get_order_shipping_tax_rate (manager ?ev) o2 p = Inl TaxError"
    and g6: "\<forall>o2 ls2. \<not> isl (calculate_order_total (manager ?ev) o2 ls2)"
    and g7: "\<forall>o2. get_taxes_for_order (manager ?ev) o2 = Inr None"
    by (simp_all add: ex_env_def failing_manager_def)
  have a: "status ex_order \<in> set ORDER_EDITABLE_STATUS"
    by (simp add: ex_order_def ORDER_EDITABLE_STATUS_def)
  have b: "should_refresh_prices ex_order" by (simp add: ex_order_def)
  have s: "get_tax_calculation_strategy_for_order ?ev ex_prepared_order = TAX_APP"
    and c: "get_charge_taxes_for_order ?ev ex_prepared_order"
    and x: "\<not> tax_exemption ex_prepared_order"
    by (simp_all add: ex_env_def ex_prepared_order_def ex_order_def)
  from guarded_tax_errors_are_swallowed [OF g1 g2 g3 g4 g5 g6 g7,
         of ex_db ex_order None False False ex_prepared_order "[ex_line1, ex_line2]" _ ex_db]
       a b ex_failing_prepare s c x
  have "\<not> isl (fetch_order_prices_and_update_if_expired ?ev ex_db ex_order None False False)"
    by blast
  moreover have "calculate_order_line_unit failing_manager ex_prepared_order ex_line1
                   = Inl TaxError"
    and "calculate_order_shipping failing_manager ex_prepared_order = Inl TaxError"
    by (simp_all add: failing_manager_def)
  ultimately show ?thesis using a b ex_failing_run by simp
qed

subsection \<open>The staleness flag\<close>

lemma apply_shipping_from_plugins_flag:
  "apply_shipping_from_plugins m o1 = Inr o2 \<Longrightarrow>
     should_refresh_prices o2 = should_refresh_prices o1"
  by (auto simp add: apply_shipping_from_plugins_def except_TaxError_def Let_def
        set_shipping_price_def split: sum.splits if_splits)

lemma apply_tax_data_from_plugins_flag:
  "apply_tax_data_from_plugins m o1 ls = Inr (o2, ls2) \<Longrightarrow>
     should_refresh_prices o2 = should_refresh_prices o1"
  by (auto simp add: apply_tax_data_from_plugins_def Let_def set_total_def
        set_undiscounted_total_def dest: apply_shipping_from_plugins_flag
        split: sum.splits prod.splits)

lemma apply_tax_data_flag:
  "apply_tax_data ev o1 ls tdo = Inr (o2, ls2) \<Longrightarrow>
     should_refresh_prices o2 = should_refresh_prices o1"
  by (auto simp add: apply_tax_data_def Let_def set_total_def set_shipping_price_def
        split: option.splits sum.splits prod.splits)

lemma remove_tax_flag:
  "remove_tax o1 ls = (o2, ls2) \<Longrightarrow> should_refresh_prices o2 = should_refresh_prices o1"
  by (auto simp add: remove_tax_def)

lemma calculate_and_add_tax_flag:
  assumes "\<forall>o3 ls3 b. should_refresh_prices (fst (update_order_prices_with_flat_rates ev o3 ls3 b))
             = should_refresh_prices o3"
    and "calculate_and_add_tax ev st o1 ls pewt = Inr (o2, ls2)"
  shows "should_refresh_prices o2 = should_refresh_prices o1"
proof (cases "st = TAX_APP")
  case True
  with assms(2) obtain o3 ls3 tdo where
    "apply_tax_data_from_plugins (manager ev) o1 ls = Inr (o3, ls3)"
    "apply_tax_data ev o3 ls3 tdo = Inr (o2, ls2)"
    by (auto simp add: calculate_and_add_tax_def split: sum.splits prod.splits)
  then show ?thesis
    using apply_tax_data_from_plugins_flag apply_tax_data_flag by metis
next
  case False
  with assms(2) have "update_order_prices_with_flat_rates ev o1 ls pewt = (o2, ls2)"
    by (simp add: calculate_and_add_tax_def)
  with assms(1) [rule_format, of o1 ls pewt] show ?thesis by simp
qed

lemma calculate_taxes_flag:
  assumes "\<forall>o3 ls3 b. should_refresh_prices (fst (update_order_prices_with_flat_rates ev o3 ls3 b))
             = should_refresh_prices o3"
    and "calculate_taxes ev o1 ls = Inr (o2, ls2)"
  shows "should_refresh_prices o2 = should_refresh_prices o1"
  using assms(2)
  by (auto simp add: calculate_taxes_def Let_def
        dest: calculate_and_add_tax_flag [OF assms(1)] remove_tax_flag
        split: sum.splits prod.splits if_splits)

lemma prepare_prices_flag:
  assumes "\<forall>o3 ls3. should_refresh_prices (fst (apply_order_discounts ev o3 ls3))
             = should_refresh_prices o3"
    and "prepare_prices ev d o1 lines = (d1, o4, ls4)"
  shows "\<not> should_refresh_prices o4"
proof -
  let ?o3 = "snd (update_order_discount_for_voucher d (o1\<lparr>should_refresh_prices := False\<rparr>))"
  let ?ls = "case lines of None \<Rightarrow> db_lines d | Some xs \<Rightarrow> xs"
  have "\<not> should_refresh_prices ?o3"
    by (simp add: update_order_discount_for_voucher_def Let_def)
  moreover from assms(2) have "o4 = fst (apply_order_discounts ev ?o3 ?ls)"
    by (auto simp add: prepare_prices_def Let_def split: prod.splits)
  ultimately show ?thesis using assms(1) by simp
qed

lemma persist_prices_flag:
  "should_refresh_prices (db_order (persist_prices d1 o5 ls5 info)) = should_refresh_prices o5"
  by (simp add: persist_prices_def Let_def save_order_def)

text \<open>
  C7: after a recalculation of an editable order that returns, the staleness flag of the
  returned order and of the order's row is False, and a following call with
  \<open>force_update = False\<close> on what the first call returned gives back the same database,
  order and lines. The collaborators outside the verified files that mutate the order
  (\<open>apply_order_discounts\<close>, \<open>update_order_prices_with_flat_rates\<close>) are taken not to
  write the flag.
\<close>

theorem second_call_is_noop:
  assumes "status o1 \<in> set ORDER_EDITABLE_STATUS"
    and "force_update \<or> should_refresh_prices o1"
    and "\<forall>o3 ls3. should_refresh_prices (fst (apply_order_discounts ev o3 ls3))
           = should_refresh_prices o3"
    and "\<forall>o3 ls3 b. should_refresh_prices (fst (update_order_prices_with_flat_rates ev o3 ls3 b))
           = should_refresh_prices o3"
    and "fetch_order_prices_and_update_if_expired ev d o1 lines force_update info
           = Inr (d', o', lines')"
  shows "\<not> should_refresh_prices o'
     \<and> \<not> should_refresh_prices (db_order d')
     \<and> fetch_order_prices_and_update_if_expired ev d' o' lines' False info'
         = Inr (d', o', lines')"
proof -
  obtain d1 o4 ls4 where p: "prepare_prices ev d o1 lines = (d1, o4, ls4)"
    by (cases "prepare_prices ev d o1 lines") auto
  from assms(1,2,5) p obtain ls5 where
    r: "calculate_taxes ev o4 ls4 = Inr (o', ls5)"
    and d': "d' = persist_prices d1 o' ls5 info"
    by (auto simp add: fetch_order_prices_and_update_if_expired_def
          split: sum.splits prod.splits if_splits)
  from prepare_prices_flag [OF assms(3) p] calculate_taxes_flag [OF assms(4) r]
  have f: "\<not> should_refresh_prices o'" by simp
  with d' have "\<not> should_refresh_prices (db_order d')"
    by (simp add: persist_prices_flag)
  moreover from f have "fetch_order_prices_and_update_if_expired ev d' o' lines' False info'
         = Inr (d', o', lines')"
    by (simp add: fetch_order_prices_and_update_if_expired_def)
  ultimately show ?thesis using f by simp
qed

theorem second_call_is_noop_witness:
  "status ex_order \<in> set ORDER_EDITABLE_STATUS
   \<and> should_refresh_prices ex_order
   \<and> fetch_order_prices_and_update_if_expired
        (ex_env (echo_manager (Some (ex_tax_data [ex_tax_line1, ex_tax_line2]))))
        ex_db ex_order None False True
       = Inr (persist_prices ex_db ex_final_order [ex_taxed_line1, ex_taxed_line2] True,
              ex_final_order, Some [ex_taxed_line1, ex_taxed_line2])
   \<and> \<not> should_refresh_prices ex_final_order
   \<and> \<not> should_refresh_prices
         (db_order (persist_prices ex_db ex_final_order [ex_taxed_line1, ex_taxed_line2] True))
   \<and> fetch_order_prices_and_update_if_expired
        (ex_env (echo_manager (Some (ex_tax_data [ex_tax_line1, ex_tax_line2]))))
        (persist_prices ex_db ex_final_order [ex_taxed_line1, ex_taxed_line2] True)
        ex_final_order (Some [ex_taxed_line1, ex_taxed_line2]) False True
       = Inr (persist_prices ex_db ex_final_order [ex_taxed_line1, ex_taxed_line2] True,
              ex_final_order, Some [ex_taxed_line1, ex_taxed_line2])"
proof -
  let ?ev = "ex_env (echo_manager (Some (ex_tax_data [ex_tax_line1, ex_tax_line2])))"
  have a: "status ex_order \<in> set ORDER_EDITABLE_STATUS"
    by (simp add: ex_order_def ORDER_EDITABLE_STATUS_def)
  have b: "should_refresh_prices ex_order" by (simp add: ex_order_def)
  then have b': "False \<or> should_refresh_prices ex_order" by simp
  have c: "\<forall>o3 ls3. should_refresh_prices (fst (apply_order_discounts ?ev o3 ls3))
           = should_refresh_prices o3"
    by (simp add: ex_env_def)
  have e: "\<forall>o3 ls3 b. should_refresh_prices
             (fst (update_order_prices_with_flat_rates ?ev o3 ls3 b))
           = should_refresh_prices o3"
    by (simp add: ex_env_def)
  from second_call_is_noop [OF a b' c e ex_full_run, of True] a b ex_full_run
  show ?thesis by simp
qed

subsection \<open>The checkout\<close>

lemmas checkout_defs = fetch_checkout_prices_if_expired_def
  checkout_apply_tax_data_from_plugins_def save_checkout_def checkout_bulk_update_def
  checkout_total_def calculate_checkout_total_with_gift_cards_def taxed_money_sub_money_def
  taxed_money_max_def taxed_money_lt_def zero_taxed_money_def Let_def

lemmas ex_checkout_defs = ex_checkout_def ex_checkout_line_def ex_checkout_db_def
  repricing_checkout_manager_def echo_checkout_manager_def ex_checkout_env_def
  ex_repriced_checkout_def ex_repriced_line_def

lemma checkout_gate_returns_early:
  "\<not> force_update \<Longrightarrow> price_expiration (checkout ci) < now_at_gate ev \<Longrightarrow>
     fetch_checkout_prices_if_expired ev d ci ls addr ds force_update
       = Inr (d, checkout ci, ls)"
  by (simp add: fetch_checkout_prices_if_expired_def)

text \<open>
  C1 at two inputs. The checkout's \<open>price_expiration\<close> (100) lies before now (200) and
  \<open>force_update\<close> is false: the function returns the checkout, the lines and the
  database as they were. With \<open>price_expiration\<close> (300) still ahead of now it takes the
  manager's prices, sets the expiration to now plus the time to live and saves.
\<close>

theorem expired_checkout_is_not_recomputed:
  "price_expiration ex_checkout < now_at_gate (ex_checkout_env repricing_checkout_manager)
   \<and> fetch_checkout_prices_if_expired (ex_checkout_env repricing_checkout_manager)
        ex_checkout_db \<lparr>checkout = ex_checkout\<rparr> [\<lparr>line = ex_checkout_line\<rparr>] None [] False
       = Inr (ex_checkout_db, ex_checkout, [\<lparr>line = ex_checkout_line\<rparr>])
   \<and> now_at_gate (ex_checkout_env repricing_checkout_manager)
        < price_expiration (ex_checkout\<lparr>price_expiration := 300\<rparr>)
   \<and> fetch_checkout_prices_if_expired (ex_checkout_env repricing_checkout_manager)
        (ex_checkout_db\<lparr>cdb_checkout := ex_checkout\<lparr>price_expiration := 300\<rparr>\<rparr>)
        \<lparr>checkout = ex_checkout\<lparr>price_expiration := 300\<rparr>\<rparr>
        [\<lparr>line = ex_checkout_line\<rparr>] None [] False
       = Inr (\<lparr>cdb_checkout = ex_repriced_checkout, cdb_lines = [ex_repriced_line]\<rparr>,
              ex_repriced_checkout, [\<lparr>line = ex_repriced_line\<rparr>])"
  by (simp add: checkout_defs ex_checkout_defs)

text \<open>
  C10, as the code has it: \<open>calculate_checkout_total_with_gift_cards\<close>, when it returns,
  returns the checkout total minus the gift-card balance if the gross amount of that
  difference is not negative, and zero otherwise; the gross amount it returns is never
  negative.
\<close>

theorem gift_card_total_clamped_on_gross:
  assumes "calculate_checkout_total_with_gift_cards ev d ci ls addr ds = Inr (d', c', ls', r)"
  shows "checkout_total ev d ci ls addr ds = Inr (d', c', ls', co_total c')
     \<and> r = (if gross (co_total c') - get_total_gift_cards_balance ev c' < 0
            then zero_taxed_money (co_currency c')
            else taxed_money_sub_money (co_total c') (get_total_gift_cards_balance ev c'))
     \<and> 0 \<le> gross r"
proof -
  from assms obtain t where
    t: "checkout_total ev d ci ls addr ds = Inr (d', c', ls', t)"
    and r: "r = taxed_money_max (taxed_money_sub_money t (get_total_gift_cards_balance ev c'))
                 (zero_taxed_money (co_currency c'))"
    by (auto simp add: calculate_checkout_total_with_gift_cards_def Let_def
          split: sum.splits prod.splits)
  from t have "t = co_total c'"
    by (auto simp add: checkout_total_def split: sum.splits prod.splits)
  with t r show ?thesis
    by (simp add: taxed_money_max_def taxed_money_lt_def taxed_money_sub_money_def
          zero_taxed_money_def)
qed

text \<open>
  The total is 8 net and 10 gross and the gift cards hold 9: the difference has gross 1,
  so it is returned as it is, with the net amount \<open>- 1\<close>. The same on the path that
  recomputes the prices.
\<close>

theorem gift_card_total_negative_net:
  "calculate_checkout_total_with_gift_cards (ex_checkout_env echo_checkout_manager)
      ex_checkout_db \<lparr>checkout = ex_checkout\<rparr> [\<lparr>line = ex_checkout_line\<rparr>] None []
     = Inr (ex_checkout_db, ex_checkout, [\<lparr>line = ex_checkout_line\<rparr>],
            \<lparr>net = - 1, gross = 1\<rparr>)
   \<and> calculate_checkout_total_with_gift_cards (ex_checkout_env echo_checkout_manager)
        (ex_checkout_db\<lparr>cdb_checkout := ex_checkout\<lparr>price_expiration := 300\<rparr>\<rparr>)
        \<lparr>checkout = ex_checkout\<lparr>price_expiration := 300\<rparr>\<rparr>
        [\<lparr>line = ex_checkout_line\<rparr>] None []
     = Inr (ex_checkout_db\<lparr>cdb_checkout := ex_checkout\<lparr>price_expiration := 3800\<rparr>\<rparr>,
            ex_checkout\<lparr>price_expiration := 3800\<rparr>, [\<lparr>line = ex_checkout_line\<rparr>],
            \<lparr>net = - 1, gross = 1\<rparr>)
   \<and> net \<lparr>net = - 1, gross = (1::rat)\<rparr> < (0::rat)"
  by (simp add: checkout_defs ex_checkout_defs)

theorem gift_card_total_clamped_on_gross_witness:
  "calculate_checkout_total_with_gift_cards (ex_checkout_env echo_checkout_manager)
      ex_checkout_db \<lparr>checkout = ex_checkout\<rparr> [\<lparr>line = ex_checkout_line\<rparr>] None []
     = Inr (ex_checkout_db, ex_checkout, [\<lparr>line = ex_checkout_line\<rparr>],
            \<lparr>net = - 1, gross = 1\<rparr>)
   \<and> checkout_total (ex_checkout_env echo_checkout_manager)
      ex_checkout_db \<lparr>checkout = ex_checkout\<rparr> [\<lparr>line = ex_checkout_line\<rparr>] None []
     = Inr (ex_checkout_db, ex_checkout, [\<lparr>line = ex_checkout_line\<rparr>], co_total ex_checkout)
   \<and> (0::rat) \<le> gross \<lparr>net = - 1, gross = (1::rat)\<rparr>"
proof -
  have a: "calculate_checkout_total_with_gift_cards (ex_checkout_env echo_checkout_manager)
      ex_checkout_db \<lparr>checkout = ex_checkout\<rparr> [\<lparr>line = ex_checkout_line\<rparr>] None []
     = Inr (ex_checkout_db, ex_checkout, [\<lparr>line = ex_checkout_line\<rparr>],
            \<lparr>net = - 1, gross = 1\<rparr>)"
    by (simp add: checkout_defs ex_checkout_defs)
  from gift_card_total_clamped_on_gross [OF a]
  have "checkout_total (ex_checkout_env echo_checkout_manager)
      ex_checkout_db \<lparr>checkout = ex_checkout\<rparr> [\<lparr>line = ex_checkout_line\<rparr>] None []
     = Inr (ex_checkout_db, ex_checkout, [\<lparr>line = ex_checkout_line\<rparr>], co_total ex_checkout)"
    and "(0::rat) \<le> gross \<lparr>net = - 1, gross = (1::rat)\<rparr>"
    by blast+
  with a show ?thesis by blast
qed

end
